theory Spec2Isabelle
  imports Main "HOL-Library.Sublist"
begin

section \<open>Data model\<close>

text \<open>
  The custom resource of \<^verbatim>\<open>api/v1alpha1\<close> (terraform types) and the pieces of the
  Kubernetes API the reconciler touches. Go strings are byte strings (\<^typ>\<open>string\<close>),
  \<^verbatim>\<open>int64\<close> generations are only compared and copied, so they are \<^typ>\<open>int\<close>.
  A nil pointer field is \<^const>\<open>None\<close>. \<^verbatim>\<open>DependsOn\<close> and \<^verbatim>\<open>Outputs\<close> are slices of
  pointers in Go; the API server does not admit null items, so their elements are plain
  records here.
\<close>

type_synonym TerraformRunStatus = string

definition RunStarted :: TerraformRunStatus where "RunStarted = ''Started''"
definition RunRunning :: TerraformRunStatus where "RunRunning = ''Running''"
definition RunCompleted :: TerraformRunStatus where "RunCompleted = ''Completed''"
definition RunFailed :: TerraformRunStatus where "RunFailed = ''Failed''"
definition RunWaitingForDependency :: TerraformRunStatus where
  "RunWaitingForDependency = ''WaitingForDependency''"
definition RunDeleted :: TerraformRunStatus where "RunDeleted = ''Deleted''"

definition TerraformFinalizer :: string where
  "TerraformFinalizer = ''finalizers.terraform-operator.io''"

record NamespacedName =
  nn_Namespace :: string
  nn_Name :: string

record Module =
  Source :: string
  Version :: string

record DependsOn =
  dep_Name :: string
  dep_Namespace :: string

record TerraformDependencyRef =
  ref_Name :: string
  ref_Key :: string

text \<open>\<^verbatim>\<open>corev1.SecretKeySelector\<close>: the referenced object's name and the key in it.\<close>

record SecretKeySelector =
  sel_Name :: string
  sel_Key :: string

text \<open>\<^verbatim>\<open>corev1.EnvVarSource\<close>: at most one of its pointers is set by a well-formed object.\<close>

record EnvVarSource =
  FieldRef :: "string option"
  ConfigMapKeyRef :: "SecretKeySelector option"
  SecretKeyRef :: "SecretKeySelector option"

record Variable =
  Key :: string
  Value :: string
  ValueFrom :: "EnvVarSource option"
  EnvironmentVariable :: bool
  DependencyRef :: "TerraformDependencyRef option"

record Output =
  out_Key :: string
  ModuleOutputName :: string

record TerraformSpec =
  TerraformVersion :: string
  Module :: Module
  Backend :: string
  ProvidersConfig :: string
  Workspace :: string
  DependsOn :: "DependsOn list"
  Variables :: "Variable list"
  Outputs :: "Output list"
  Destroy :: bool
  DeleteCompletedJobs :: bool
  RetryLimit :: int

record TerraformStatus =
  RunID :: string
  PreviousRunID :: string
  OutputSecretName :: string
  ObservedGeneration :: int
  RunStatus :: TerraformRunStatus
  Message :: string
  StartedTime :: string
  CompletionTime :: string

text \<open>
  \<^verbatim>\<open>Terraform\<close> with the fields of \<^verbatim>\<open>metav1.ObjectMeta\<close> that the reconciler reads:
  name, namespace, generation, deletion timestamp (nil when not being deleted) and
  finalizers.
\<close>

record Terraform =
  Name :: string
  Namespace :: string
  Generation :: int
  DeletionTimestamp :: "nat option"
  Finalizers :: "string list"
  Spec :: TerraformSpec
  Status :: TerraformStatus

section \<open>Naming helpers (internal/terraform/resource\_helpers.go)\<close>

text \<open>\<^verbatim>\<open>strings.TrimRight(s, c)\<close> for a one-character cutset.\<close>

definition TrimRight :: "string \<Rightarrow> char \<Rightarrow> string" where
  "TrimRight s c = rev (dropWhile (\<lambda>x. x = c) (rev s))"

definition truncateResourceName :: "string \<Rightarrow> nat \<Rightarrow> string" where
  "truncateResourceName name mx =
     (if length name < mx then name
      else TrimRight (TrimRight (take mx name) (CHR ''-'')) (CHR ''.''))"

definition getUniqueResourceName :: "string \<Rightarrow> string \<Rightarrow> string" where
  "getUniqueResourceName name runID = truncateResourceName name 220 @ ''-'' @ runID"

definition getOutputSecretName :: "string \<Rightarrow> string" where
  "getOutputSecretName runName = truncateResourceName runName 220 @ ''-outputs''"

text \<open>\<^verbatim>\<open>(t *TerraformManipulator) GetOutputSecretName\<close> (internal/terraform/secrets.go).\<close>

definition GetOutputSecretName :: "Terraform \<Rightarrow> NamespacedName" where
  "GetOutputSecretName t =
     \<lparr>nn_Namespace = Namespace t, nn_Name = getOutputSecretName (Name t)\<rparr>"

subsection \<open>Run identifiers\<close>

definition letters :: string where
  "letters = ''abcdefghijklmnopqrstuvwxyz123456790''"

text \<open>
  \<^verbatim>\<open>rand.Int(rand.Reader, max)\<close> yields a value in \<open>[0, max)\<close>; its error is discarded by
  the caller. The reader is a source of raw numbers, one per draw, reduced into the range.
\<close>

definition rand_Int :: "(nat \<Rightarrow> nat) \<Rightarrow> nat \<Rightarrow> nat \<Rightarrow> nat" where
  "rand_Int reader i mx = reader i mod mx"

text \<open>\<^verbatim>\<open>random(n)\<close>: position \<open>i\<close> of the result is the letter picked by the \<open>i\<close>-th draw.\<close>

definition random :: "(nat \<Rightarrow> nat) \<Rightarrow> nat \<Rightarrow> string" where
  "random reader n = map (\<lambda>i. letters ! rand_Int reader i (length letters)) [0..<n]"

text \<open>\<^verbatim>\<open>SetRunID\<close> (TerraformManipulator): the old id, when there is one, becomes the previous id.\<close>

definition SetRunID :: "(nat \<Rightarrow> nat) \<Rightarrow> Terraform \<Rightarrow> Terraform" where
  "SetRunID reader t =
     (let st = Status t;
          st1 = (if RunID st \<noteq> [] then st\<lparr>PreviousRunID := RunID st\<rparr> else st)
      in t\<lparr>Status := st1\<lparr>RunID := random reader 6\<rparr>\<rparr>)"

subsection \<open>Classification predicates\<close>

definition IsSubmitted :: "Terraform \<Rightarrow> bool" where
  "IsSubmitted t = (RunID (Status t) = [])"

definition IsStarted :: "Terraform \<Rightarrow> bool" where
  "IsStarted t = (RunStatus (Status t) = RunStarted \<or> RunStatus (Status t) = RunRunning)"

definition IsRunning :: "Terraform \<Rightarrow> bool" where
  "IsRunning t = (RunStatus (Status t) = RunRunning)"

definition IsUpdated :: "Terraform \<Rightarrow> bool" where
  "IsUpdated t = (Generation t > 0 \<and> Generation t > ObservedGeneration (Status t))"

definition IsWaiting :: "Terraform \<Rightarrow> bool" where
  "IsWaiting t = (RunStatus (Status t) = RunWaitingForDependency)"

definition HasErrored :: "Terraform \<Rightarrow> bool" where
  "HasErrored t = (RunStatus (Status t) = RunFailed)"

section \<open>Cluster client, errors and effects\<close>

text \<open>
  Errors are values. \<^verbatim>\<open>NotFound\<close> and \<^verbatim>\<open>AlreadyExists\<close> are the API status reasons the
  code tests for; \<^verbatim>\<open>ApiError\<close> is any other failure of a cluster call. The two errors
  built by \<^verbatim>\<open>CheckDependencies\<close> with \<^verbatim>\<open>fmt.Errorf\<close> keep the dependency's name; the first
  wraps the client's error.
\<close>

datatype error =
    NotFound
  | AlreadyExists
  | ApiError string
  | UnableToGetDependency NamespacedName error
  | DependencyNotReady NamespacedName
  | TemplateError string

fun IsNotFound :: "error \<Rightarrow> bool" where
  "IsNotFound NotFound = True"
| "IsNotFound (UnableToGetDependency n e) = IsNotFound e"
| "IsNotFound e = False"

text \<open>A run-time panic of the Go program: slicing \<^verbatim>\<open>s[low:]\<close> with \<open>low > len(s)\<close>.\<close>

datatype panic = SliceBoundsOutOfRange nat nat

datatype kind = KindTerraform | KindJob | KindConfigMap | KindSecret | KindServiceAccount | KindRoleBinding

text \<open>
  The objects the operator creates, by kind, with what the operator decides about them:
  the name, the ClusterRole a RoleBinding refers to, and the \<^verbatim>\<open>main.tf\<close> of a module
  ConfigMap. Labels and owner references are left out.
\<close>

datatype kobject =
    ServiceAccount NamespacedName
  | RoleBinding NamespacedName string
  | ConfigMap NamespacedName string
  | Secret NamespacedName
  | JobObject NamespacedName

text \<open>The counters of \<^verbatim>\<open>batchv1.JobStatus\<close> (\<^verbatim>\<open>int32\<close>, only compared with 0).\<close>

record Job =
  Active :: int
  Succeeded :: int
  Failed :: int

type_synonym Time = nat

datatype layout = UnixDate

datatype propagation = DeletePropagationForeground

text \<open>What a reconciliation does to the outside world, in order.\<close>

datatype effect =
    ClientGet kind NamespacedName
  | ClientCreate kobject
  | ClientDelete kind NamespacedName propagation
  | ClientUpdate Terraform
  | ClientStatusUpdate Terraform
  | RecorderEvent string string string
  | RecordStatus string string TerraformRunStatus
  | RecordTotal string string
  | RecordDuration string string Time

text \<open>\<^verbatim>\<open>ctrl.Result\<close>; the zero value asks for nothing.\<close>

record Result =
  Requeue :: bool
  RequeueAfter :: int

definition Result_zero :: Result where
  "Result_zero = \<lparr>Requeue = False, RequeueAfter = 0\<rparr>"

text \<open>
  \<^verbatim>\<open>TerraformReconciler\<close>: the two requeue intervals, and the answers of its collaborators
  during one reconciliation: the cluster client (one answer per operation and object; a
  \<^verbatim>\<open>Get\<close> of a ConfigMap, Secret, ServiceAccount or RoleBinding only reports an error or
  none, since the code never reads the object), the clock with the formatting and parsing
  of package \<^verbatim>\<open>time\<close>, and the random reader.

  One reconciliation may fetch the same Job twice (\<^verbatim>\<open>handleRunJobWatch\<close>, and then
  \<^verbatim>\<open>deleteJobByRun\<close>), and the cluster may answer the second call differently from the first.
  So \<^verbatim>\<open>Get\<close> of a Job also takes the effects issued before the call: two calls in one
  reconciliation are two independent answers.
\<close>

record TerraformReconciler =
  Get_Terraform :: "NamespacedName \<Rightarrow> error + Terraform"
  Get_Job :: "effect list \<Rightarrow> NamespacedName \<Rightarrow> error + Job"
  Get_Object :: "kind \<Rightarrow> NamespacedName \<Rightarrow> error option"
  Create :: "kobject \<Rightarrow> error option"
  Delete :: "kind \<Rightarrow> NamespacedName \<Rightarrow> error option"
  Update :: "Terraform \<Rightarrow> error option"
  Status_Update :: "Terraform \<Rightarrow> error option"
  time_Now :: Time
  time_Format :: "Time \<Rightarrow> layout \<Rightarrow> string"
  time_Parse :: "layout \<Rightarrow> string \<Rightarrow> error + Time"
  rand_Reader :: "nat \<Rightarrow> nat"
  requeueDependency :: int
  requeueJobWatch :: int

section \<open>Dependency resolution\<close>

text \<open>A dependency is ready when its current spec has been acted upon and the run completed.\<close>

definition dependency_ready :: "Terraform \<Rightarrow> bool" where
  "dependency_ready dep =
     (Generation dep = ObservedGeneration (Status dep) \<and> RunStatus (Status dep) = RunCompleted)"

text \<open>
  The loop variable \<^verbatim>\<open>d\<close> of \<^verbatim>\<open>CheckDependencies\<close> is a pointer into \<^verbatim>\<open>t.Spec.DependsOn\<close>, so
  \<^verbatim>\<open>d.Namespace = t.Namespace\<close> also rewrites the entry of the run in memory.
\<close>

definition default_namespace :: "string \<Rightarrow> DependsOn \<Rightarrow> DependsOn" where
  "default_namespace ns d = (if dep_Namespace d = [] then d\<lparr>dep_Namespace := ns\<rparr> else d)"

definition dependency_name :: "string \<Rightarrow> DependsOn \<Rightarrow> NamespacedName" where
  "dependency_name ns d =
     \<lparr>nn_Namespace = dep_Namespace (default_namespace ns d), nn_Name = dep_Name d\<rparr>"

text \<open>
  The loop of \<^verbatim>\<open>CheckDependencies\<close> over the entries still to visit, with the dependencies
  collected so far. It returns the entries as the loop leaves them, the collected list, the
  error if any, and the effects.
\<close>

fun CheckDependencies_loop ::
  "TerraformReconciler \<Rightarrow> string \<Rightarrow> DependsOn list \<Rightarrow> Terraform list \<Rightarrow> effect list \<Rightarrow>
     DependsOn list \<times> Terraform list \<times> error option \<times> effect list" where
  "CheckDependencies_loop r ns [] dependencies tr = ([], dependencies, None, tr)"
| "CheckDependencies_loop r ns (d # ds) dependencies tr =
     (let d' = default_namespace ns d;
          depName = \<lparr>nn_Namespace = dep_Namespace d', nn_Name = dep_Name d'\<rparr>;
          tr1 = tr @ [ClientGet KindTerraform depName]
      in case Get_Terraform r depName of
           Inl err \<Rightarrow> (d' # ds, dependencies, Some (UnableToGetDependency depName err), tr1)
         | Inr dep \<Rightarrow>
             if Generation dep \<noteq> ObservedGeneration (Status dep)
             then (d' # ds, dependencies, Some (DependencyNotReady depName), tr1)
             else if RunStatus (Status dep) \<noteq> RunCompleted
             then (d' # ds, dependencies, Some (DependencyNotReady depName), tr1)
             else (case CheckDependencies_loop r ns ds (dependencies @ [dep]) tr1 of
                     (ds', res) \<Rightarrow> (d' # ds', res)))"

definition CheckDependencies ::
  "TerraformReconciler \<Rightarrow> Terraform \<Rightarrow> effect list \<Rightarrow>
     Terraform \<times> Terraform list \<times> error option \<times> effect list" where
  "CheckDependencies r t tr =
     (case CheckDependencies_loop r (Namespace t) (DependsOn (Spec t)) [] tr of
        (ds', res) \<Rightarrow> (t\<lparr>Spec := (Spec t)\<lparr>DependsOn := ds'\<rparr>\<rparr>, res))"

text \<open>
  \<^verbatim>\<open>SetVariablesFromDependencies\<close>. The variable built for a matching dependency:
  the key and the reference of \<^verbatim>\<open>v\<close>, and a secret key reference into the dependency's
  output secret.
\<close>

definition tfVar_of :: "Variable \<Rightarrow> TerraformDependencyRef \<Rightarrow> Terraform \<Rightarrow> Variable" where
  "tfVar_of v ref dep =
     \<lparr>Key = Key v, Value = [],
      ValueFrom = Some \<lparr>FieldRef = None, ConfigMapKeyRef = None,
        SecretKeyRef = Some \<lparr>sel_Name = OutputSecretName (Status dep), sel_Key = ref_Key ref\<rparr>\<rparr>,
      EnvironmentVariable = False, DependencyRef = Some ref\<rparr>"

text \<open>
  The two appends of the loop body, on the variables \<open>vars\<close> of the run:
  \<^verbatim>\<open>append(vars[:index], vars[index+1:]...)\<close> panics unless \<open>index + 1 \<le> len(vars)\<close>, and
  otherwise moves the elements after \<open>index\<close> one place down inside the same backing
  array; \<^verbatim>\<open>append(\<dots>, tfVar)\<close> then writes the last place of the same array (the length is
  back to what it was, within the capacity). So the slice keeps its array and its length.
\<close>

definition remove_and_append :: "nat \<Rightarrow> Variable \<Rightarrow> Variable list \<Rightarrow> panic + Variable list" where
  "remove_and_append index tfVar vars =
     (if index + 1 > length vars then Inl (SliceBoundsOutOfRange (index + 1) (length vars))
      else Inr (take index vars @ drop (index + 1) vars @ [tfVar]))"

text \<open>
  The inner loop, \<^verbatim>\<open>for index, dep := range dependencies\<close>, from position \<open>index\<close> on:
  \<open>index\<close> counts the dependencies, and it is the position removed from the variables.
\<close>

fun set_variables_inner ::
  "string \<Rightarrow> Variable \<Rightarrow> TerraformDependencyRef \<Rightarrow> nat \<Rightarrow> Terraform list \<Rightarrow> Variable list \<Rightarrow>
     panic + Variable list" where
  "set_variables_inner ns v ref index [] vars = Inr vars"
| "set_variables_inner ns v ref index (dep # deps) vars =
     (if Name dep \<noteq> ref_Name ref \<or> Namespace dep \<noteq> ns
      then set_variables_inner ns v ref (index + 1) deps vars
      else (case remove_and_append index (tfVar_of v ref dep) vars of
              Inl p \<Rightarrow> Inl p
            | Inr vars' \<Rightarrow> set_variables_inner ns v ref (index + 1) deps vars'))"

text \<open>
  The outer loop, \<^verbatim>\<open>for _, v := range t.Spec.Variables\<close>: the range expression is evaluated
  once, so the loop visits the positions of the original length, and reads each \<^verbatim>\<open>v\<close> from
  the backing array as the earlier iterations left it. \<open>is\<close> are the positions still to
  visit; the length never changes, so every read is in range.
\<close>

fun set_variables_outer ::
  "string \<Rightarrow> Terraform list \<Rightarrow> nat list \<Rightarrow> Variable list \<Rightarrow> panic + Variable list" where
  "set_variables_outer ns dependencies [] vars = Inr vars"
| "set_variables_outer ns dependencies (i # is) vars =
     (let v = vars ! i
      in case DependencyRef v of
           None \<Rightarrow> set_variables_outer ns dependencies is vars
         | Some ref \<Rightarrow>
             (case set_variables_inner ns v ref 0 dependencies vars of
                Inl p \<Rightarrow> Inl p
              | Inr vars' \<Rightarrow> set_variables_outer ns dependencies is vars'))"

definition SetVariablesFromDependencies :: "Terraform \<Rightarrow> Terraform list \<Rightarrow> panic + Terraform" where
  "SetVariablesFromDependencies t dependencies =
     (if length dependencies = 0 then Inr t
      else (case set_variables_outer (Namespace t) dependencies
                   [0..<length (Variables (Spec t))] (Variables (Spec t)) of
              Inl p \<Rightarrow> Inl p
            | Inr vars' \<Rightarrow> Inr (t\<lparr>Spec := (Spec t)\<lparr>Variables := vars'\<rparr>\<rparr>)))"

text \<open>
  The rewrite the specification describes, in one pass over the input: a variable whose
  reference names a dependency of the run's namespace gets the secret key reference of
  (the first) such dependency, every other variable is kept.
\<close>

definition rewrite_variable :: "string \<Rightarrow> Terraform list \<Rightarrow> Variable \<Rightarrow> Variable" where
  "rewrite_variable ns dependencies v =
     (case DependencyRef v of
        None \<Rightarrow> v
      | Some ref \<Rightarrow>
          (case List.find (\<lambda>dep. Name dep = ref_Name ref \<and> Namespace dep = ns) dependencies of
             None \<Rightarrow> v
           | Some dep \<Rightarrow> tfVar_of v ref dep))"

section \<open>Module renderer (internal/resources/terraform\_project.go)\<close>

text \<open>
  The template of \<^verbatim>\<open>GetTerraformModuleFromTemplate\<close>, executed by hand. An action written
  \<^verbatim>\<open>{{- \<dots>}}\<close> removes the white space before it, so the text between two actions is what is
  left of the template's text after that trimming; \<^verbatim>\<open>{{if}}\<close> on a string tests that it is
  not empty. Each function below is one stretch of the template, in the template's order.
\<close>

definition TAB :: string where
  "TAB = [CHR 0x09]"

definition NL :: string where
  "NL = [CHR 0x0A]"

definition render_backend :: "TerraformSpec \<Rightarrow> string" where
  "render_backend sp =
     (if Backend sp \<noteq> [] then NL @ TAB @ TAB @ Backend sp else [])"

definition render_required_version :: "TerraformSpec \<Rightarrow> string" where
  \<open>render_required_version sp =
     NL @ TAB @ NL @ TAB @ TAB @ ''required_version = "~> '' @ TerraformVersion sp @ ''"'' @
     NL @ TAB @ ''}''\<close>

definition render_providers :: "TerraformSpec \<Rightarrow> string" where
  "render_providers sp =
     (if ProvidersConfig sp \<noteq> [] then NL @ TAB @ ProvidersConfig sp else [])"

definition render_variable_decl :: "Variable \<Rightarrow> string" where
  \<open>render_variable_decl v =
     (if \<not> EnvironmentVariable v then NL @ TAB @ ''variable "'' @ Key v @ ''" {}'' else [])\<close>

definition render_module_head :: "TerraformSpec \<Rightarrow> string" where
  \<open>render_module_head sp =
     NL @ TAB @ NL @ TAB @ ''## additional-blocks'' @ NL @ TAB @ NL @ TAB @
     ''module "operator" {'' @ NL @ TAB @ TAB @ ''source = "'' @ Source (Module sp) @ ''"''\<close>

definition render_module_version :: "TerraformSpec \<Rightarrow> string" where
  \<open>render_module_version sp =
     (if Version (Module sp) \<noteq> []
      then NL @ TAB @ TAB @ ''version = "'' @ Version (Module sp) @ ''"'' else [])\<close>

definition render_variable_arg :: "Variable \<Rightarrow> string" where
  "render_variable_arg v =
     (if \<not> EnvironmentVariable v then NL @ TAB @ TAB @ Key v @ '' = var.'' @ Key v else [])"

definition render_output :: "Output \<Rightarrow> string" where
  \<open>render_output out =
     NL @ TAB @ ''output "'' @ out_Key out @ ''" {'' @ NL @ TAB @ TAB @
     ''value = module.operator.'' @ ModuleOutputName out @ NL @ TAB @ ''}''\<close>

definition render_main_tf :: "TerraformSpec \<Rightarrow> string" where
  "render_main_tf sp =
     ''terraform {'' @ render_backend sp @ render_required_version sp @ render_providers sp @
     concat (map render_variable_decl (Variables sp)) @
     render_module_head sp @ render_module_version sp @
     concat (map render_variable_arg (Variables sp)) @
     NL @ TAB @ ''}'' @
     concat (map render_output (Outputs sp))"

text \<open>
  The two steps of the template engine. The template text is a constant that parses; the
  execution reads only string and boolean fields of non-nil records, so it does not fail.
\<close>

definition template_Parse :: "error + unit" where
  "template_Parse = Inr ()"

definition template_Execute :: "Terraform \<Rightarrow> error + string" where
  "template_Execute t = Inr (render_main_tf (Spec t))"

definition GetTerraformModuleFromTemplate :: "Terraform \<Rightarrow> error + string" where
  "GetTerraformModuleFromTemplate t =
     (case template_Parse of
        Inl err \<Rightarrow> Inl err
      | Inr tfTemplate \<Rightarrow>
          (case template_Execute t of
             Inl err \<Rightarrow> Inl err
           | Inr tpl \<Rightarrow> Inr tpl))"

text \<open>\<^verbatim>\<open>setBackendCfgIfNotExist\<close>: the default backend, written into the spec when none is given.\<close>

definition default_backend :: "string \<Rightarrow> string \<Rightarrow> string" where
  \<open>default_backend name namespace =
     ''backend "kubernetes" {'' @ NL @
     ''  secret_suffix     = "'' @ name @ ''"'' @ NL @
     ''  in_cluster_config = true'' @ NL @
     ''  namespace         = "'' @ namespace @ ''"'' @ NL @
     ''}'' @ NL\<close>

definition setBackendCfgIfNotExist :: "Terraform \<Rightarrow> Terraform" where
  "setBackendCfgIfNotExist t =
     (if Backend (Spec t) = []
      then t\<lparr>Spec := (Spec t)\<lparr>Backend := default_backend (Name t) (Namespace t)\<rparr>\<rparr>
      else t)"

text \<open>\<^verbatim>\<open>GetConfigMapSpecForModule\<close> (internal/resources/terraform\_configmaps.go).\<close>

definition GetConfigMapSpecForModule :: "Terraform \<Rightarrow> error + kobject" where
  "GetConfigMapSpecForModule t =
     (case GetTerraformModuleFromTemplate t of
        Inl err \<Rightarrow> Inl err
      | Inr tpl \<Rightarrow>
          Inr (ConfigMap \<lparr>nn_Namespace = Namespace t,
                 nn_Name = getUniqueResourceName (Name t) (RunID (Status t))\<rparr> tpl))"

section \<open>Cluster operations (internal/terraform/operations.go)\<close>

text \<open>
  Every operation takes the effects so far and returns them extended. An operation that
  returns \<^verbatim>\<open>(object, error)\<close> in Go and whose object no caller reads returns the error only.
\<close>

definition runnerRBACName :: string where
  "runnerRBACName = ''terraform-runner''"

definition GetServiceAccountName :: "Terraform \<Rightarrow> NamespacedName" where
  "GetServiceAccountName t = \<lparr>nn_Namespace = Namespace t, nn_Name = runnerRBACName\<rparr>"

definition GetServiceAccount :: "Terraform \<Rightarrow> kobject" where
  "GetServiceAccount t = ServiceAccount (GetServiceAccountName t)"

definition GetRoleBindingName :: "Terraform \<Rightarrow> NamespacedName" where
  "GetRoleBindingName t = \<lparr>nn_Namespace = Namespace t, nn_Name = runnerRBACName\<rparr>"

definition GetRoleBinding :: "Terraform \<Rightarrow> kobject" where
  "GetRoleBinding t = RoleBinding (GetRoleBindingName t) runnerRBACName"

definition GetOutputSecret :: "Terraform \<Rightarrow> kobject" where
  "GetOutputSecret t = Secret (GetOutputSecretName t)"

definition unique_name :: "Terraform \<Rightarrow> string \<Rightarrow> NamespacedName" where
  "unique_name t runID =
     \<lparr>nn_Namespace = Namespace t, nn_Name = getUniqueResourceName (Name t) runID\<rparr>"

text \<open>
  Modelled from the spec: \<^verbatim>\<open>GetJobSpecForRun\<close> is not among the sources. The runner Job is
  named \<^verbatim>\<open>{truncated(runName,220)}-{runId}\<close> in the run's namespace, the name under which
  \<^verbatim>\<open>GetJobForRun\<close> looks it up.
\<close>

definition GetJobSpecForRun :: "Terraform \<Rightarrow> kobject" where
  "GetJobSpecForRun t = JobObject (unique_name t (RunID (Status t)))"

definition GetJobForRun ::
  "TerraformReconciler \<Rightarrow> Terraform \<Rightarrow> string \<Rightarrow> effect list \<Rightarrow> (error + Job) \<times> effect list" where
  "GetJobForRun r t runID tr =
     (let jobName = unique_name t runID
      in (Get_Job r tr jobName, tr @ [ClientGet KindJob jobName]))"

definition createJobForRun ::
  "TerraformReconciler \<Rightarrow> Terraform \<Rightarrow> effect list \<Rightarrow> error option \<times> effect list" where
  "createJobForRun r t tr =
     (let job = GetJobSpecForRun t in (Create r job, tr @ [ClientCreate job]))"

text \<open>
  \<^verbatim>\<open>deleteJobByRun\<close>: the job is fetched, by a client call of its own, and then deleted
  with foreground propagation; when the fetch fails its error is returned and no deletion
  is issued. (The test \<^verbatim>\<open>job == nil\<close> after a successful fetch never holds.)
\<close>

definition deleteJobByRun ::
  "TerraformReconciler \<Rightarrow> Terraform \<Rightarrow> string \<Rightarrow> effect list \<Rightarrow> error option \<times> effect list" where
  "deleteJobByRun r t runID tr =
     (case GetJobForRun r t runID tr of
        (Inl err, tr1) \<Rightarrow> (Some err, tr1)
      | (Inr job, tr1) \<Rightarrow>
          (Delete r KindJob (unique_name t runID),
           tr1 @ [ClientDelete KindJob (unique_name t runID) DeletePropagationForeground]))"

definition createSecretForOutputs ::
  "TerraformReconciler \<Rightarrow> Terraform \<Rightarrow> effect list \<Rightarrow> error option \<times> effect list" where
  "createSecretForOutputs r t tr =
     (let secretName = GetOutputSecretName t;
          tr1 = tr @ [ClientGet KindSecret secretName]
      in case Get_Object r KindSecret secretName of
           None \<Rightarrow> (None, tr1)
         | Some err \<Rightarrow>
             if \<not> IsNotFound err then (Some err, tr1)
             else (let secret = GetOutputSecret t
                   in (Create r secret, tr1 @ [ClientCreate secret])))"

definition createConfigMapForModule ::
  "TerraformReconciler \<Rightarrow> Terraform \<Rightarrow> effect list \<Rightarrow> error option \<times> effect list" where
  "createConfigMapForModule r t tr =
     (case GetConfigMapSpecForModule t of
        Inl err \<Rightarrow> (Some err, tr)
      | Inr configMap \<Rightarrow> (Create r configMap, tr @ [ClientCreate configMap]))"

definition deleteConfigMapByRun ::
  "TerraformReconciler \<Rightarrow> Terraform \<Rightarrow> string \<Rightarrow> effect list \<Rightarrow> error option \<times> effect list" where
  "deleteConfigMapByRun r t runID tr =
     (let cm = unique_name t runID;
          tr1 = tr @ [ClientGet KindConfigMap cm]
      in case Get_Object r KindConfigMap cm of
           Some err \<Rightarrow> (Some err, tr1)
         | None \<Rightarrow>
             (Delete r KindConfigMap cm,
              tr1 @ [ClientDelete KindConfigMap cm DeletePropagationForeground]))"

definition isServiceAccountExist ::
  "TerraformReconciler \<Rightarrow> Terraform \<Rightarrow> effect list \<Rightarrow> (bool \<times> error option) \<times> effect list" where
  "isServiceAccountExist r t tr =
     (let tr1 = tr @ [ClientGet KindServiceAccount (GetServiceAccountName t)]
      in case Get_Object r KindServiceAccount (GetServiceAccountName t) of
           None \<Rightarrow> ((True, None), tr1)
         | Some err \<Rightarrow> if IsNotFound err then ((False, None), tr1) else ((False, Some err), tr1))"

definition isRoleBindingExist ::
  "TerraformReconciler \<Rightarrow> Terraform \<Rightarrow> effect list \<Rightarrow> (bool \<times> error option) \<times> effect list" where
  "isRoleBindingExist r t tr =
     (let tr1 = tr @ [ClientGet KindRoleBinding (GetRoleBindingName t)]
      in case Get_Object r KindRoleBinding (GetRoleBindingName t) of
           None \<Rightarrow> ((True, None), tr1)
         | Some err \<Rightarrow> if IsNotFound err then ((False, None), tr1) else ((False, Some err), tr1))"

definition createServiceAccount ::
  "TerraformReconciler \<Rightarrow> Terraform \<Rightarrow> effect list \<Rightarrow> error option \<times> effect list" where
  "createServiceAccount r t tr =
     (let obj = GetServiceAccount t in (Create r obj, tr @ [ClientCreate obj]))"

definition createRoleBinding ::
  "TerraformReconciler \<Rightarrow> Terraform \<Rightarrow> effect list \<Rightarrow> error option \<times> effect list" where
  "createRoleBinding r t tr =
     (let obj = GetRoleBinding t in (Create r obj, tr @ [ClientCreate obj]))"

text \<open>The second half of \<^verbatim>\<open>createRbacConfigIfNotExist\<close>: the RoleBinding.\<close>

definition createRoleBindingIfNotExist ::
  "TerraformReconciler \<Rightarrow> Terraform \<Rightarrow> effect list \<Rightarrow> error option \<times> effect list" where
  "createRoleBindingIfNotExist r t tr =
     (case isRoleBindingExist r t tr of
        ((roleBindingExist, Some err), tr1) \<Rightarrow> (Some err, tr1)
      | ((roleBindingExist, None), tr1) \<Rightarrow>
          if \<not> roleBindingExist
          then (case createRoleBinding r t tr1 of
                  (Some err, tr2) \<Rightarrow> (Some err, tr2)
                | (None, tr2) \<Rightarrow> (None, tr2))
          else (None, tr1))"

definition createRbacConfigIfNotExist ::
  "TerraformReconciler \<Rightarrow> Terraform \<Rightarrow> effect list \<Rightarrow> error option \<times> effect list" where
  "createRbacConfigIfNotExist r t tr =
     (case isServiceAccountExist r t tr of
        ((saExist, Some err), tr1) \<Rightarrow> (Some err, tr1)
      | ((saExist, None), tr1) \<Rightarrow>
          if \<not> saExist
          then (case createServiceAccount r t tr1 of
                  (Some err, tr2) \<Rightarrow> (Some err, tr2)
                | (None, tr2) \<Rightarrow> createRoleBindingIfNotExist r t tr2)
          else createRoleBindingIfNotExist r t tr1)"

text \<open>
  \<^verbatim>\<open>CreateTerraformRun\<close> of the reconciler (the copy that works on
  \<^verbatim>\<open>resources.TerraformManipulator\<close>): service account and role binding, module ConfigMap,
  output Secret, Job, stopping at the first error.
\<close>

definition CreateTerraformRun_resources ::
  "TerraformReconciler \<Rightarrow> Terraform \<Rightarrow> effect list \<Rightarrow> error option \<times> effect list" where
  "CreateTerraformRun_resources r t tr =
     (case createRbacConfigIfNotExist r t tr of
        (Some err, tr1) \<Rightarrow> (Some err, tr1)
      | (None, tr1) \<Rightarrow>
          (case createConfigMapForModule r t tr1 of
             (Some err, tr2) \<Rightarrow> (Some err, tr2)
           | (None, tr2) \<Rightarrow>
               (case createSecretForOutputs r t tr2 of
                  (Some err, tr3) \<Rightarrow> (Some err, tr3)
                | (None, tr3) \<Rightarrow>
                    (case createJobForRun r t tr3 of
                       (Some err, tr4) \<Rightarrow> (Some err, tr4)
                     | (None, tr4) \<Rightarrow> (None, tr4)))))"

text \<open>
  \<^verbatim>\<open>CreateTerraformRun\<close> of internal/terraform/operations.go: the same four steps after
  \<^verbatim>\<open>t.setRunID()\<close>. The body of \<^verbatim>\<open>setRunID\<close> is not among the sources; it is taken to be the
  exported \<^verbatim>\<open>SetRunID\<close> above.
\<close>

definition CreateTerraformRun ::
  "TerraformReconciler \<Rightarrow> Terraform \<Rightarrow> effect list \<Rightarrow> error option \<times> Terraform \<times> effect list" where
  "CreateTerraformRun r t0 tr =
     (let t = SetRunID (rand_Reader r) t0
      in case CreateTerraformRun_resources r t tr of (err, tr1) \<Rightarrow> (err, t, tr1))"

definition DeleteAfterCompletion ::
  "TerraformReconciler \<Rightarrow> Terraform \<Rightarrow> effect list \<Rightarrow> error option \<times> effect list" where
  "DeleteAfterCompletion r t tr = deleteJobByRun r t (RunID (Status t)) tr"

text \<open>The second half of \<^verbatim>\<open>CleanupResources\<close>: the older ConfigMap.\<close>

definition cleanup_configmap ::
  "TerraformReconciler \<Rightarrow> Terraform \<Rightarrow> string \<Rightarrow> effect list \<Rightarrow> error option \<times> effect list" where
  "cleanup_configmap r t previousRunID tr =
     (case deleteConfigMapByRun r t previousRunID tr of
        (Some err, tr1) \<Rightarrow> if \<not> IsNotFound err then (Some err, tr1) else (None, tr1)
      | (None, tr1) \<Rightarrow> (None, tr1))"

definition CleanupResources ::
  "TerraformReconciler \<Rightarrow> Terraform \<Rightarrow> effect list \<Rightarrow> error option \<times> effect list" where
  "CleanupResources r t tr =
     (let previousRunID = PreviousRunID (Status t)
      in if previousRunID = [] then (None, tr)
         else (case deleteJobByRun r t previousRunID tr of
                 (Some err, tr1) \<Rightarrow>
                   if \<not> IsNotFound err then (Some err, tr1)
                   else cleanup_configmap r t previousRunID tr1
               | (None, tr1) \<Rightarrow> cleanup_configmap r t previousRunID tr1))"

section \<open>The reconciler (internal/controllers/terraform\_controller.go)\<close>

text \<open>
  The file holds the controller twice. The functions below follow its first copy, the one
  that works on \<^verbatim>\<open>terraform.TerraformManipulator\<close>; where the second copy differs in what it
  does, its function is given as well, under a name that ends in \<open>_resources\<close>.
\<close>

text \<open>\<^verbatim>\<open>controllerutil\<close>: finalizers are a list of strings without a fixed order.\<close>

definition ContainsFinalizer :: "Terraform \<Rightarrow> string \<Rightarrow> bool" where
  "ContainsFinalizer t f = (f \<in> set (Finalizers t))"

definition AddFinalizer :: "Terraform \<Rightarrow> string \<Rightarrow> Terraform" where
  "AddFinalizer t f = (if f \<in> set (Finalizers t) then t else t\<lparr>Finalizers := Finalizers t @ [f]\<rparr>)"

definition RemoveFinalizer :: "Terraform \<Rightarrow> string \<Rightarrow> Terraform" where
  "RemoveFinalizer t f = t\<lparr>Finalizers := filter (\<lambda>e. e \<noteq> f) (Finalizers t)\<rparr>"

definition requeue_after :: "int \<Rightarrow> Result" where
  "requeue_after d = \<lparr>Requeue = False, RequeueAfter = d\<rparr>"

text \<open>\<^verbatim>\<open>fmt.Sprintf("Run(%s) \<dots>", t.Status.RunID)\<close>.\<close>

definition run_message :: "Terraform \<Rightarrow> string \<Rightarrow> string" where
  "run_message t rest = ''Run('' @ RunID (Status t) @ '') '' @ rest"

text \<open>
  \<^verbatim>\<open>updateRunStatus\<close>: the status is set on the object in memory, the metric is recorded for
  the three statuses that have one, and the status is written to the cluster. The error of
  that write is the result; the object in memory keeps the new status either way.
\<close>

definition stamp_status :: "TerraformReconciler \<Rightarrow> Terraform \<Rightarrow> TerraformRunStatus \<Rightarrow> Terraform" where
  "stamp_status r t status =
     (let t1 = t\<lparr>Status := (Status t)\<lparr>RunStatus := status, ObservedGeneration := Generation t\<rparr>\<rparr>;
          t2 = (if status = RunStarted
                then t1\<lparr>Status := (Status t1)
                       \<lparr>StartedTime := time_Format r (time_Now r) UnixDate,
                        OutputSecretName := nn_Name (GetOutputSecretName t1)\<rparr>\<rparr>
                else t1);
          t3 = (if status = RunCompleted \<or> status = RunFailed
                then t2\<lparr>Status := (Status t2)
                       \<lparr>CompletionTime := time_Format r (time_Now r) UnixDate\<rparr>\<rparr>
                else t2)
      in t3)"

definition updateRunStatus ::
  "TerraformReconciler \<Rightarrow> Terraform \<Rightarrow> TerraformRunStatus \<Rightarrow> effect list \<Rightarrow>
     error option \<times> Terraform \<times> effect list" where
  "updateRunStatus r t status tr =
     (let t3 = stamp_status r t status;
          tr1 = (if status = RunCompleted \<or> status = RunFailed \<or> status = RunWaitingForDependency
                 then tr @ [RecordStatus (Name t3) (Namespace t3) status] else tr)
      in (Status_Update r t3, t3, tr1 @ [ClientStatusUpdate t3]))"

text \<open>
  \<^verbatim>\<open>handleRunCreate\<close>. A panic of \<^verbatim>\<open>SetVariablesFromDependencies\<close> ends the reconciliation
  with the effects so far.
\<close>

definition handleRunCreate ::
  "TerraformReconciler \<Rightarrow> Terraform \<Rightarrow> effect list \<Rightarrow>
     panic \<times> effect list + Result \<times> error option \<times> Terraform \<times> effect list" where
  "handleRunCreate r t0 tr =
     (case CheckDependencies r t0 tr of
        (t, dependencies, Some err, tr1) \<Rightarrow>
          if IsWaiting t
          then Inr (requeue_after (requeueDependency r), None, t, tr1)
          else (case updateRunStatus r t RunWaitingForDependency
                       (tr1 @ [RecorderEvent ''Normal'' ''Waiting''
                                 ''Dependencies are not yet completed'']) of
                  (err', t', tr2) \<Rightarrow> Inr (requeue_after (requeueDependency r), err', t', tr2))
      | (t, dependencies, None, tr1) \<Rightarrow>
          (case SetVariablesFromDependencies t dependencies of
             Inl p \<Rightarrow> Inl (p, tr1)
           | Inr t1 \<Rightarrow>
               (case CreateTerraformRun r t1 tr1 of
                  (Some err, t2, tr2) \<Rightarrow>
                    (case updateRunStatus r t2 RunFailed tr2 of
                       (err', t3, tr3) \<Rightarrow> Inr (Result_zero, Some err, t3, tr3))
                | (None, t2, tr2) \<Rightarrow>
                    (case CleanupResources r t2 tr2 of
                       (cerr, tr3) \<Rightarrow>
                         (case updateRunStatus r t2 RunStarted tr3 of
                            (err', t3, tr4) \<Rightarrow> Inr (Result_zero, err', t3, tr4))))))"

text \<open>
  The earlier \<^verbatim>\<open>handleRunCreate\<close>, kept in the second half of the same file (the copy that
  imports the \<^verbatim>\<open>kuptan\<close> packages): it sets the run id itself, and it calls
  \<^verbatim>\<open>updateRunStatus\<close> without looking at its result.
\<close>

definition handleRunCreate_resources ::
  "TerraformReconciler \<Rightarrow> Terraform \<Rightarrow> effect list \<Rightarrow>
     panic \<times> effect list + Result \<times> error option \<times> Terraform \<times> effect list" where
  "handleRunCreate_resources r t0 tr =
     (case CheckDependencies r t0 tr of
        (t, dependencies, Some err, tr1) \<Rightarrow>
          if IsWaiting t
          then Inr (requeue_after (requeueDependency r), None, t, tr1)
          else (case updateRunStatus r t RunWaitingForDependency
                       (tr1 @ [RecorderEvent ''Normal'' ''Waiting''
                                 ''Dependencies are not yet completed'']) of
                  (err', t', tr2) \<Rightarrow> Inr (requeue_after (requeueDependency r), None, t', tr2))
      | (t, dependencies, None, tr1) \<Rightarrow>
          (case SetVariablesFromDependencies (SetRunID (rand_Reader r) t) dependencies of
             Inl p \<Rightarrow> Inl (p, tr1)
           | Inr t1 \<Rightarrow>
               (case CreateTerraformRun_resources r t1 tr1 of
                  (Some err, tr2) \<Rightarrow>
                    (case updateRunStatus r t1 RunFailed tr2 of
                       (err', t3, tr3) \<Rightarrow> Inr (Result_zero, Some err, t3, tr3))
                | (None, tr2) \<Rightarrow>
                    (case CleanupResources r t1 tr2 of
                       (cerr, tr3) \<Rightarrow>
                         (case updateRunStatus r t1 RunStarted tr3 of
                            (err', t3, tr4) \<Rightarrow> Inr (Result_zero, None, t3, tr4))))))"

definition handleRunUpdate ::
  "TerraformReconciler \<Rightarrow> Terraform \<Rightarrow> effect list \<Rightarrow>
     panic \<times> effect list + Result \<times> error option \<times> Terraform \<times> effect list" where
  "handleRunUpdate r t tr =
     handleRunCreate r t (tr @ [RecorderEvent ''Normal'' ''Updated'' ''Creating a new run job''])"

definition handleRunDelete ::
  "TerraformReconciler \<Rightarrow> Terraform \<Rightarrow> effect list \<Rightarrow>
     Result \<times> error option \<times> Terraform \<times> effect list" where
  "handleRunDelete r t0 tr =
     (let tr1 = tr @ [RecordStatus (Name t0) (Namespace t0) RunDeleted];
          t = RemoveFinalizer t0 TerraformFinalizer;
          tr2 = tr1 @ [ClientUpdate t]
      in case Update r t of
           Some err \<Rightarrow> (Result_zero, Some err, t, tr2)
         | None \<Rightarrow> (Result_zero, None, t, tr2))"

text \<open>
  The part of \<^verbatim>\<open>handleRunJobWatch\<close> after the job is fetched and the deferred
  \<^verbatim>\<open>RecordDuration\<close> is registered.
\<close>

definition job_succeeded ::
  "TerraformReconciler \<Rightarrow> Terraform \<Rightarrow> effect list \<Rightarrow>
     Result \<times> error option \<times> Terraform \<times> effect list" where
  "job_succeeded r t tr =
     (let tr1 = (if DeleteCompletedJobs (Spec t)
                 then (case DeleteAfterCompletion r t tr of
                         (Some err, tr') \<Rightarrow> tr'
                       | (None, tr') \<Rightarrow>
                           tr' @ [RecorderEvent ''Normal'' ''Cleanup''
                                    (run_message t ''kubernetes job was deleted'')])
                 else tr);
          tr2 = (if Destroy (Spec t)
                 then tr1 @ [RecorderEvent ''Normal'' ''Destroyed''
                               (run_message t ''completed with terraform destroy'')]
                 else tr1 @ [RecorderEvent ''Normal'' ''Completed'' (run_message t ''completed'')])
      in case updateRunStatus r t RunCompleted tr2 of
           (err, t', tr3) \<Rightarrow> (Result_zero, err, t', tr3))"

definition watch_job ::
  "TerraformReconciler \<Rightarrow> Terraform \<Rightarrow> Job \<Rightarrow> effect list \<Rightarrow>
     Result \<times> error option \<times> Terraform \<times> effect list" where
  "watch_job r t job tr =
     (if Active job > 0
      then (if IsRunning t then (requeue_after (requeueJobWatch r), None, t, tr)
            else (case updateRunStatus r t RunRunning
                         (tr @ [RecorderEvent ''Normal'' ''Running''
                                  (run_message t ''waiting for run job to finish'')]) of
                    (err, t', tr1) \<Rightarrow> (Result_zero, err, t', tr1)))
      else if Succeeded job > 0 then job_succeeded r t tr
      else if Failed job > 0
      then (case updateRunStatus r t RunFailed
                   (tr @ [RecorderEvent ''Warning'' ''Failed'' (run_message t ''failed'')]) of
              (err, t', tr1) \<Rightarrow> (Result_zero, err, t', tr1))
      else (requeue_after (requeueJobWatch r), None, t, tr))"

definition handleRunJobWatch ::
  "TerraformReconciler \<Rightarrow> Terraform \<Rightarrow> effect list \<Rightarrow>
     Result \<times> error option \<times> Terraform \<times> effect list" where
  "handleRunJobWatch r t tr =
     (case GetJobForRun r t (RunID (Status t)) tr of
        (Inl err, tr1) \<Rightarrow> (Result_zero, Some err, t, tr1)
      | (Inr job, tr1) \<Rightarrow>
          (let startTime = (case time_Parse r UnixDate (StartedTime (Status t)) of
                              Inl err \<Rightarrow> 0 | Inr tm \<Rightarrow> tm)
           in case watch_job r t job tr1 of
                (res, err, t', tr2) \<Rightarrow>
                  (res, err, t', tr2 @ [RecordDuration (Name t) (Namespace t) startTime])))"

text \<open>
  \<^verbatim>\<open>Reconcile\<close> for the request \<open>req\<close>. The result is the pair the framework receives and the
  effects of the pass, or a panic with the effects before it.
\<close>

definition reconcile_create ::
  "TerraformReconciler \<Rightarrow> Terraform \<Rightarrow> effect list \<Rightarrow>
     panic \<times> effect list + Result \<times> error option \<times> effect list" where
  "reconcile_create r t tr =
     (case handleRunCreate r t tr of
        Inl p \<Rightarrow> Inl p
      | Inr (result, Some err, t', tr1) \<Rightarrow> Inr (Result_zero, Some err, tr1)
      | Inr (result, None, t', tr1) \<Rightarrow>
          Inr (result, None,
               tr1 @ [RecorderEvent ''Normal'' ''Created'' (run_message t' ''submitted''),
                      RecordTotal (Name t') (Namespace t')]))"

definition reconcile_update ::
  "TerraformReconciler \<Rightarrow> Terraform \<Rightarrow> effect list \<Rightarrow>
     panic \<times> effect list + Result \<times> error option \<times> effect list" where
  "reconcile_update r t tr =
     (case handleRunUpdate r t tr of
        Inl p \<Rightarrow> Inl p
      | Inr (result, Some err, t', tr1) \<Rightarrow> Inr (Result_zero, Some err, tr1)
      | Inr (result, None, t', tr1) \<Rightarrow>
          if RequeueAfter result > 0 then Inr (result, None, tr1)
          else Inr (Result_zero, None, tr1))"

definition Reconcile ::
  "TerraformReconciler \<Rightarrow> NamespacedName \<Rightarrow>
     panic \<times> effect list + Result \<times> error option \<times> effect list" where
  "Reconcile r req =
     (let tr = [ClientGet KindTerraform req]
      in case Get_Terraform r req of
           Inl err \<Rightarrow>
             if IsNotFound err then Inr (Result_zero, None, tr)
             else Inr (Result_zero, Some err, tr)
         | Inr t \<Rightarrow>
             if \<not> ContainsFinalizer t TerraformFinalizer
             then (let t' = AddFinalizer t TerraformFinalizer
                   in case Update r t' of
                        Some err \<Rightarrow> Inr (Result_zero, Some err, tr @ [ClientUpdate t'])
                      | None \<Rightarrow>
                          Inr (Result_zero, None,
                               tr @ [ClientUpdate t',
                                     RecorderEvent ''Normal'' ''Added finalizer''
                                       ''Object finalizer is added'']))
             else if DeletionTimestamp t \<noteq> None
             then (case handleRunDelete r t tr of
                     (res, err, t', tr1) \<Rightarrow> Inr (res, err, tr1))
             else if IsSubmitted t \<or> IsWaiting t then reconcile_create r t tr
             else if IsStarted t
             then (case handleRunJobWatch r t tr of
                     (res, Some err, t', tr1) \<Rightarrow> Inr (Result_zero, Some err, tr1)
                   | (res, None, t', tr1) \<Rightarrow> Inr (res, None, tr1))
             else if IsUpdated t then reconcile_update r t tr
             else Inr (Result_zero, None, tr))"

section \<open>Reading the effects\<close>

text \<open>
  The objects written to the status subresource, the objects written by \<^verbatim>\<open>Update\<close>, the
  events and the deletions among a list of effects, each in order.
\<close>

definition status_writes :: "effect list \<Rightarrow> Terraform list" where
  "status_writes tr = concat (map (\<lambda>e. case e of ClientStatusUpdate t \<Rightarrow> [t] | _ \<Rightarrow> []) tr)"

definition metadata_writes :: "effect list \<Rightarrow> Terraform list" where
  "metadata_writes tr = concat (map (\<lambda>e. case e of ClientUpdate t \<Rightarrow> [t] | _ \<Rightarrow> []) tr)"

definition events :: "effect list \<Rightarrow> (string \<times> string \<times> string) list" where
  "events tr =
     concat (map (\<lambda>e. case e of RecorderEvent ty reason msg \<Rightarrow> [(ty, reason, msg)] | _ \<Rightarrow> []) tr)"

definition deletes :: "effect list \<Rightarrow> (kind \<times> NamespacedName \<times> propagation) list" where
  "deletes tr =
     concat (map (\<lambda>e. case e of ClientDelete k n p \<Rightarrow> [(k, n, p)] | _ \<Rightarrow> []) tr)"

definition creates :: "effect list \<Rightarrow> kobject list" where
  "creates tr = concat (map (\<lambda>e. case e of ClientCreate obj \<Rightarrow> [obj] | _ \<Rightarrow> []) tr)"

text \<open>The effects of a reconciliation, whether it returned or panicked.\<close>

definition effects_of ::
  "panic \<times> effect list + Result \<times> error option \<times> effect list \<Rightarrow> effect list" where
  "effects_of res = (case res of Inl (p, tr) \<Rightarrow> tr | Inr (result, err, tr) \<Rightarrow> tr)"

text \<open>
  An operation is quiet between two lists of effects when it wrote no status and no
  metadata and emitted no event.
\<close>

definition quiet :: "effect list \<Rightarrow> effect list \<Rightarrow> bool" where
  "quiet tr tr' =
     (status_writes tr' = status_writes tr \<and> metadata_writes tr' = metadata_writes tr \<and>
      events tr' = events tr)"

text \<open>
  What a handler may write: nothing, or one status that carries the generation \<open>g\<close> as its
  generation and as its observed generation; and no metadata.
\<close>

definition status_stamped :: "int \<Rightarrow> effect list \<Rightarrow> effect list \<Rightarrow> bool" where
  "status_stamped g tr tr' =
     (metadata_writes tr' = metadata_writes tr \<and>
      (status_writes tr' = status_writes tr \<or>
       (\<exists>t'. status_writes tr' = status_writes tr @ [t'] \<and>
             ObservedGeneration (Status t') = g \<and> Generation t' = g)))"

section \<open>What the specification says, as definitions\<close>




text \<open>The two results of \<^verbatim>\<open>CheckDependencies\<close> in Go: the list and the error.\<close>

definition check_result ::
  "Terraform \<times> Terraform list \<times> error option \<times> effect list \<Rightarrow> Terraform list \<times> error option" where
  "check_result res = (fst (snd res), fst (snd (snd res)))"

text \<open>
  An object is ensured when the existence check finds it, or reports \<^verbatim>\<open>NotFound\<close> and the
  create that follows succeeds.
\<close>

definition object_ensured ::
  "TerraformReconciler \<Rightarrow> kind \<Rightarrow> NamespacedName \<Rightarrow> kobject \<Rightarrow> bool" where
  "object_ensured r k n obj =
     (case Get_Object r k n of
        None \<Rightarrow> True
      | Some err \<Rightarrow> IsNotFound err \<and> Create r obj = None)"

section \<open>Example objects\<close>

definition empty_status :: TerraformStatus where
  "empty_status = \<lparr>RunID = [], PreviousRunID = [], OutputSecretName = [], ObservedGeneration = 0,
     RunStatus = [], Message = [], StartedTime = [], CompletionTime = []\<rparr>"

definition plain_var :: "string \<Rightarrow> string \<Rightarrow> Variable" where
  "plain_var k v =
     \<lparr>Key = k, Value = v, ValueFrom = None, EnvironmentVariable = False, DependencyRef = None\<rparr>"

definition ref_var :: "string \<Rightarrow> string \<Rightarrow> string \<Rightarrow> Variable" where
  "ref_var k dep_name dep_key =
     \<lparr>Key = k, Value = [], ValueFrom = None, EnvironmentVariable = False,
      DependencyRef = Some \<lparr>ref_Name = dep_name, ref_Key = dep_key\<rparr>\<rparr>"

text \<open>The spec of the repository's own tests: one variable, no backend, no outputs.\<close>

definition example_spec :: TerraformSpec where
  "example_spec = \<lparr>TerraformVersion = ''1.0.2'',
     Module = \<lparr>Source = ''IbraheemAlSaady/test/module'', Version = ''0.0.1''\<rparr>,
     Backend = [], ProvidersConfig = [], Workspace = [], DependsOn = [],
     Variables = [plain_var ''length'' ''16''], Outputs = [], Destroy = False,
     DeleteCompletedJobs = False, RetryLimit = 0\<rparr>"

text \<open>A completed run named \<open>n\<close> in namespace \<^verbatim>\<open>default\<close>, and one whose spec was edited since.\<close>

definition completed_run :: "string \<Rightarrow> Terraform" where
  "completed_run n = \<lparr>Name = n, Namespace = ''default'', Generation = 1, DeletionTimestamp = None,
     Finalizers = [TerraformFinalizer], Spec = example_spec,
     Status = empty_status\<lparr>RunID := ''abc123'', OutputSecretName := n @ ''-outputs'',
       ObservedGeneration := 1, RunStatus := RunCompleted\<rparr>\<rparr>"

definition edited_run :: "string \<Rightarrow> Terraform" where
  "edited_run n = (completed_run n)\<lparr>Generation := 2\<rparr>"

text \<open>
  A new run \<^verbatim>\<open>app\<close> that depends on the run \<^verbatim>\<open>network\<close> and takes its variable \<^verbatim>\<open>vpc_id\<close>
  from that run's output \<^verbatim>\<open>id\<close>; its other variable is a literal.
\<close>

definition parent_run :: Terraform where
  "parent_run = \<lparr>Name = ''app'', Namespace = ''default'', Generation = 1, DeletionTimestamp = None,
     Finalizers = [TerraformFinalizer],
     Spec = example_spec\<lparr>DependsOn := [\<lparr>dep_Name = ''network'', dep_Namespace = []\<rparr>],
       Variables := [plain_var ''region'' ''eu'', ref_var ''vpc_id'' ''network'' ''id'']\<rparr>,
     Status = empty_status\<rparr>"

text \<open>
  A cluster that holds the completed run \<^verbatim>\<open>network\<close> and the edited run \<^verbatim>\<open>dns\<close> in
  \<^verbatim>\<open>default\<close> and nothing else, and where every write succeeds.
\<close>

definition example_get :: "NamespacedName \<Rightarrow> error + Terraform" where
  "example_get n =
     (if n = \<lparr>nn_Namespace = ''default'', nn_Name = ''network''\<rparr> then Inr (completed_run ''network'')
      else if n = \<lparr>nn_Namespace = ''default'', nn_Name = ''dns''\<rparr> then Inr (edited_run ''dns'')
      else Inl NotFound)"

definition example_reconciler :: TerraformReconciler where
  "example_reconciler = \<lparr>Get_Terraform = example_get, Get_Job = (\<lambda>tr n. Inl NotFound),
     Get_Object = (\<lambda>k n. Some NotFound), Create = (\<lambda>obj. None), Delete = (\<lambda>k n. None),
     Update = (\<lambda>t. None), Status_Update = (\<lambda>t. None), time_Now = 0,
     time_Format = (\<lambda>tm l. ''Thu Jan  1 00:00:00 UTC 1970''), time_Parse = (\<lambda>l s. Inr 0),
     rand_Reader = (\<lambda>i. i), requeueDependency = 60, requeueJobWatch = 20\<rparr>"

text \<open>The file the repository's renderer test expects for \<open>example_spec\<close>.\<close>

definition expectedFile :: string where
  \<open>expectedFile =
     ''terraform {'' @ NL @
     TAB @ NL @
     TAB @ TAB @ ''required_version = "~> 1.0.2"'' @ NL @
     TAB @ ''}'' @ NL @
     TAB @ ''variable "length" {}'' @ NL @
     TAB @ NL @
     TAB @ ''## additional-blocks'' @ NL @
     TAB @ NL @
     TAB @ ''module "operator" {'' @ NL @
     TAB @ TAB @ ''source = "IbraheemAlSaady/test/module"'' @ NL @
     TAB @ TAB @ ''version = "0.0.1"'' @ NL @
     TAB @ TAB @ ''length = var.length'' @ NL @
     TAB @ ''}''\<close>

text \<open>The run of the repository's ConfigMap test: \<^verbatim>\<open>bar\<close> in \<^verbatim>\<open>default\<close>, not yet started.\<close>

definition bar_run :: Terraform where
  "bar_run = \<lparr>Name = ''bar'', Namespace = ''default'', Generation = 1, DeletionTimestamp = None,
     Finalizers = [TerraformFinalizer], Spec = example_spec, Status = empty_status\<rparr>"

text \<open>
  A cluster in which another reconciliation creates the service account between this
  one's existence check and its create: the check reports \<^verbatim>\<open>NotFound\<close>, the create
  \<^verbatim>\<open>AlreadyExists\<close>.
\<close>

definition race_reconciler :: TerraformReconciler where
  "race_reconciler = example_reconciler\<lparr>Create :=
     (\<lambda>obj. case obj of ServiceAccount n \<Rightarrow> Some AlreadyExists | _ \<Rightarrow> None)\<rparr>"

text \<open>A cluster whose status writes fail.\<close>

definition conflict_reconciler :: TerraformReconciler where
  "conflict_reconciler = example_reconciler\<lparr>Status_Update := (\<lambda>t. Some (ApiError ''conflict''))\<rparr>"

text \<open>A run that depends on the edited run \<^verbatim>\<open>dns\<close>, which is not ready.\<close>

definition blocked_run :: Terraform where
  "blocked_run = parent_run\<lparr>Spec := (Spec parent_run)\<lparr>DependsOn :=
     [\<lparr>dep_Name = ''dns'', dep_Namespace = []\<rparr>]\<rparr>\<rparr>"

text \<open>The same run on a later pass, its status already WaitingForDependency.\<close>

definition waiting_run :: Terraform where
  "waiting_run = blocked_run\<lparr>Status := (Status blocked_run)
     \<lparr>RunStatus := RunWaitingForDependency, ObservedGeneration := 1\<rparr>\<rparr>"

text \<open>
  A started run whose job reports one succeeded pod (and, for \<open>busy_job\<close>, one pod still
  active), in a cluster that answers every job lookup with that job.
\<close>

definition started_run :: Terraform where
  "started_run = (completed_run ''app'')\<lparr>Status := (Status (completed_run ''app''))
     \<lparr>RunStatus := RunStarted\<rparr>\<rparr>"

definition succeeded_job :: Job where
  "succeeded_job = \<lparr>Active = 0, Succeeded = 1, Failed = 0\<rparr>"

definition busy_job :: Job where
  "busy_job = \<lparr>Active = 1, Succeeded = 1, Failed = 0\<rparr>"

definition job_reconciler :: "Job \<Rightarrow> TerraformReconciler" where
  "job_reconciler job = example_reconciler\<lparr>Get_Job := (\<lambda>tr n. Inr job)\<rparr>"

text \<open>The started run with \<^verbatim>\<open>deleteCompletedJobs\<close> set, in a cluster that refuses to delete.\<close>

definition cleanup_run :: Terraform where
  "cleanup_run = started_run\<lparr>Spec := (Spec started_run)\<lparr>DeleteCompletedJobs := True\<rparr>\<rparr>"

definition undeletable_reconciler :: TerraformReconciler where
  "undeletable_reconciler =
     (job_reconciler succeeded_job)\<lparr>Delete := (\<lambda>k n. Some (ApiError ''forbidden''))\<rparr>"

text \<open>
  A cluster in which the succeeded job is gone by the time it is fetched again: a \<^verbatim>\<open>Get\<close>
  issued before any other effect finds it, every later one reports \<^verbatim>\<open>NotFound\<close>.
\<close>

definition vanished_reconciler :: TerraformReconciler where
  "vanished_reconciler =
     example_reconciler\<lparr>Get_Job := (\<lambda>tr n. if tr = [] then Inr succeeded_job else Inl NotFound)\<rparr>"

text \<open>The run whose job is still active, on a later pass: its status is Running.\<close>

definition running_run :: Terraform where
  "running_run = started_run\<lparr>Status := (Status started_run)\<lparr>RunStatus := RunRunning\<rparr>\<rparr>"

text \<open>
  A run whose name has 221 characters, the 220th a hyphen: 219 times \<^verbatim>\<open>a\<close>, then \<^verbatim>\<open>-b\<close>. (An
  object name may have up to 253 characters.)
\<close>

definition long_name :: string where
  "long_name = replicate 219 (CHR ''a'') @ ''-b''"

definition long_run :: Terraform where
  "long_run = bar_run\<lparr>Name := long_name\<rparr>"

text \<open>
  A cluster that holds the service account but not the role binding, and refuses to create
  role bindings.
\<close>

definition forbidden_reconciler :: TerraformReconciler where
  "forbidden_reconciler = example_reconciler
     \<lparr>Get_Object := (\<lambda>k n. if k = KindServiceAccount then None else Some NotFound),
      Create := (\<lambda>obj. case obj of RoleBinding n role \<Rightarrow> Some (ApiError ''forbidden'')
                         | _ \<Rightarrow> None)\<rparr>"

text \<open>The run \<^verbatim>\<open>bar\<close> with the run id that the ConfigMap test gives it.\<close>

definition bar_1234 :: Terraform where
  "bar_1234 = bar_run\<lparr>Status := empty_status\<lparr>RunID := ''1234''\<rparr>\<rparr>"

text \<open>A cluster that answers every lookup of a run with \<open>t\<close>, and the request for \<^verbatim>\<open>bar\<close>.\<close>

definition fresh_request :: NamespacedName where
  "fresh_request = \<lparr>nn_Namespace = ''default'', nn_Name = ''bar''\<rparr>"

definition fresh_reconciler :: "Terraform \<Rightarrow> TerraformReconciler" where
  "fresh_reconciler t = example_reconciler\<lparr>Get_Terraform := (\<lambda>n. Inr t)\<rparr>"

text \<open>The request for the edited run \<^verbatim>\<open>dns\<close>.\<close>

definition dns_request :: NamespacedName where
  "dns_request = \<lparr>nn_Namespace = ''default'', nn_Name = ''dns''\<rparr>"

section \<open>Facts about the helpers\<close>

named_theorems run_status_defs

lemmas run_status_consts [run_status_defs] =
  RunStarted_def RunRunning_def RunCompleted_def RunFailed_def
  RunWaitingForDependency_def RunDeleted_def

lemma length_letters: "length letters = 35"
  by (simp add: letters_def)

lemma random_length: "length (random reader n) = n"
  by (simp add: random_def)

lemma random_in_letters: "set (random reader n) \<subseteq> set letters"
  by (auto simp: random_def rand_Int_def length_letters)

lemma random_identity_reader: "random (\<lambda>i. i) 6 = ''abcdef''"
  by (simp add: random_def rand_Int_def letters_def upt_rec)

lemma letters_no_8: "CHR ''8'' \<notin> set letters"
  by (simp add: letters_def)

lemma letters_lower_alnum: "set letters \<subseteq> set ''abcdefghijklmnopqrstuvwxyz0123456789''"
  by (simp add: letters_def)

lemma RunID_SetRunID: "RunID (Status (SetRunID reader t)) = random reader 6"
  by (simp add: SetRunID_def Let_def)

lemma dep_Name_default_namespace [simp]: "dep_Name (default_namespace ns d) = dep_Name d"
  by (simp add: default_namespace_def)

lemma CheckDependencies_loop_Cons:
  "CheckDependencies_loop r ns (d # ds) acc tr =
     (let tr1 = tr @ [ClientGet KindTerraform (dependency_name ns d)]
      in case Get_Terraform r (dependency_name ns d) of
           Inl e \<Rightarrow>
             (default_namespace ns d # ds, acc,
              Some (UnableToGetDependency (dependency_name ns d) e), tr1)
         | Inr dep \<Rightarrow>
             if \<not> dependency_ready dep
             then (default_namespace ns d # ds, acc,
                   Some (DependencyNotReady (dependency_name ns d)), tr1)
             else (case CheckDependencies_loop r ns ds (acc @ [dep]) tr1 of
                     (ds', res) \<Rightarrow> (default_namespace ns d # ds', res)))"
  by (simp add: dependency_name_def dependency_ready_def Let_def split: sum.splits)


text \<open>
  The variable rewrite keeps the number of variables, so the positions the outer loop
  visits stay in range.
\<close>

lemma remove_and_append_length:
  "remove_and_append index tfVar vars = Inr vars' \<Longrightarrow> length vars' = length vars"
  by (auto simp: remove_and_append_def split: if_splits)

lemma set_variables_inner_length:
  "set_variables_inner ns v ref index deps vars = Inr vars' \<Longrightarrow> length vars' = length vars"
proof (induction deps arbitrary: index vars)
  case Nil
  then show ?case by simp
next
  case (Cons dep deps)
  then show ?case
    by (auto split: if_splits sum.splits dest: remove_and_append_length)
qed

lemma set_variables_outer_length:
  "set_variables_outer ns deps is vars = Inr vars' \<Longrightarrow> length vars' = length vars"
proof (induction "is" arbitrary: vars)
  case Nil
  then show ?case by simp
next
  case (Cons i "is")
  then show ?case
    by (auto simp: Let_def split: option.splits sum.splits dest: set_variables_inner_length)
qed

lemma SetVariablesFromDependencies_length:
  "SetVariablesFromDependencies t deps = Inr t' \<Longrightarrow>
     length (Variables (Spec t')) = length (Variables (Spec t))"
  by (auto simp: SetVariablesFromDependencies_def split: if_splits sum.splits
      dest: set_variables_outer_length)

section \<open>Facts about the effects\<close>

named_theorems proj_simps

lemma status_writes_append [proj_simps]:
  "status_writes (a @ b) = status_writes a @ status_writes b"
  by (simp add: status_writes_def)

lemma metadata_writes_append [proj_simps]:
  "metadata_writes (a @ b) = metadata_writes a @ metadata_writes b"
  by (simp add: metadata_writes_def)

lemma events_append [proj_simps]: "events (a @ b) = events a @ events b"
  by (simp add: events_def)

lemma deletes_append [proj_simps]: "deletes (a @ b) = deletes a @ deletes b"
  by (simp add: deletes_def)

lemma creates_append [proj_simps]: "creates (a @ b) = creates a @ creates b"
  by (simp add: creates_def)

lemma status_writes_Cons [proj_simps]:
  "status_writes (e # es) = (case e of ClientStatusUpdate t \<Rightarrow> [t] | _ \<Rightarrow> []) @ status_writes es"
  "status_writes [] = []"
  by (simp_all add: status_writes_def)

lemma metadata_writes_Cons [proj_simps]:
  "metadata_writes (e # es) = (case e of ClientUpdate t \<Rightarrow> [t] | _ \<Rightarrow> []) @ metadata_writes es"
  "metadata_writes [] = []"
  by (simp_all add: metadata_writes_def)

lemma events_Cons [proj_simps]:
  "events (e # es) =
     (case e of RecorderEvent ty reason msg \<Rightarrow> [(ty, reason, msg)] | _ \<Rightarrow> []) @ events es"
  "events [] = []"
  by (simp_all add: events_def)

lemma deletes_Cons [proj_simps]:
  "deletes (e # es) = (case e of ClientDelete k n p \<Rightarrow> [(k, n, p)] | _ \<Rightarrow> []) @ deletes es"
  "deletes [] = []"
  by (simp_all add: deletes_def)

lemma creates_Cons [proj_simps]:
  "creates (e # es) = (case e of ClientCreate obj \<Rightarrow> [obj] | _ \<Rightarrow> []) @ creates es"
  "creates [] = []"
  by (simp_all add: creates_def)

lemma quiet_refl [simp]: "quiet tr tr"
  by (simp add: quiet_def)

lemma quiet_trans: "quiet a b \<Longrightarrow> quiet b c \<Longrightarrow> quiet a c"
  by (simp add: quiet_def)

lemma quiet_get [simp]: "quiet tr (tr @ [ClientGet k n])"
  by (simp add: quiet_def proj_simps)

lemma quiet_create [simp]: "quiet tr (tr @ [ClientCreate obj])"
  by (simp add: quiet_def proj_simps)

lemma quiet_delete [simp]: "quiet tr (tr @ [ClientDelete k n p])"
  by (simp add: quiet_def proj_simps)

lemma quiet_get_then: "quiet (tr @ [ClientGet k n]) tr' \<Longrightarrow> quiet tr tr'"
  by (simp add: quiet_def proj_simps)

lemma CheckDependencies_loop_quiet:
  "CheckDependencies_loop r ns ds acc tr = (ds', deps, err, tr') \<Longrightarrow> quiet tr tr'"
proof (induction ds arbitrary: acc tr ds' deps err tr')
  case Nil
  then show ?case by simp
next
  case (Cons d ds)
  let ?tr1 = "tr @ [ClientGet KindTerraform (dependency_name ns d)]"
  show ?case
  proof (cases "\<exists>dep. Get_Terraform r (dependency_name ns d) = Inr dep \<and> dependency_ready dep")
    case True
    then obtain dep where g: "Get_Terraform r (dependency_name ns d) = Inr dep"
      and rdy: "dependency_ready dep" by blast
    with Cons.prems obtain ds'' where
      rec: "CheckDependencies_loop r ns ds (acc @ [dep]) ?tr1 = (ds'', deps, err, tr')"
      by (auto simp: CheckDependencies_loop_Cons Let_def simp del: CheckDependencies_loop.simps
          split: prod.splits)
    from Cons.IH[OF rec] show ?thesis by (rule quiet_get_then)
  next
    case False
    with Cons.prems have "tr' = ?tr1"
      by (auto simp: CheckDependencies_loop_Cons Let_def simp del: CheckDependencies_loop.simps
          split: sum.splits if_splits)
    then show ?thesis by simp
  qed
qed

lemma CheckDependencies_quiet:
  "CheckDependencies r t tr = (t', deps, err, tr') \<Longrightarrow> quiet tr tr'"
  by (auto simp: CheckDependencies_def split: prod.splits dest: CheckDependencies_loop_quiet)

lemma CheckDependencies_run:
  "CheckDependencies r t tr = (t', deps, err, tr') \<Longrightarrow>
     Status t' = Status t \<and> Generation t' = Generation t \<and> Name t' = Name t \<and>
     Namespace t' = Namespace t \<and> Finalizers t' = Finalizers t"
  by (auto simp: CheckDependencies_def split: prod.splits)

lemma GetJobForRun_quiet: "GetJobForRun r t runID tr = (res, tr') \<Longrightarrow> quiet tr tr'"
  by (auto simp: GetJobForRun_def Let_def)

lemma deleteJobByRun_quiet: "deleteJobByRun r t runID tr = (err, tr') \<Longrightarrow> quiet tr tr'"
  by (auto simp: deleteJobByRun_def GetJobForRun_def Let_def quiet_def proj_simps split: sum.splits)

lemma deleteConfigMapByRun_quiet:
  "deleteConfigMapByRun r t runID tr = (err, tr') \<Longrightarrow> quiet tr tr'"
  by (auto simp: deleteConfigMapByRun_def Let_def quiet_def proj_simps split: option.splits)

lemma cleanup_configmap_quiet: "cleanup_configmap r t runID tr = (err, tr') \<Longrightarrow> quiet tr tr'"
  by (auto simp: cleanup_configmap_def split: prod.splits option.splits if_splits
      dest: deleteConfigMapByRun_quiet)

lemma CleanupResources_quiet: "CleanupResources r t tr = (err, tr') \<Longrightarrow> quiet tr tr'"
  by (auto simp: CleanupResources_def Let_def split: prod.splits option.splits if_splits
      dest!: deleteJobByRun_quiet cleanup_configmap_quiet intro: quiet_trans)

lemma createRoleBindingIfNotExist_quiet:
  "createRoleBindingIfNotExist r t tr = (err, tr') \<Longrightarrow> quiet tr tr'"
  by (auto simp: createRoleBindingIfNotExist_def isRoleBindingExist_def createRoleBinding_def
      Let_def quiet_def proj_simps split: option.splits if_splits)

lemma createRbacConfigIfNotExist_quiet:
  "createRbacConfigIfNotExist r t tr = (err, tr') \<Longrightarrow> quiet tr tr'"
  by (auto simp: createRbacConfigIfNotExist_def isServiceAccountExist_def
      createServiceAccount_def Let_def split: option.splits if_splits
      dest!: createRoleBindingIfNotExist_quiet) (auto simp: quiet_def proj_simps)

lemma createConfigMapForModule_quiet:
  "createConfigMapForModule r t tr = (err, tr') \<Longrightarrow> quiet tr tr'"
  by (auto simp: createConfigMapForModule_def split: sum.splits)

lemma createSecretForOutputs_quiet:
  "createSecretForOutputs r t tr = (err, tr') \<Longrightarrow> quiet tr tr'"
  by (auto simp: createSecretForOutputs_def Let_def quiet_def proj_simps
      split: option.splits if_splits)

lemma createJobForRun_quiet: "createJobForRun r t tr = (err, tr') \<Longrightarrow> quiet tr tr'"
  by (auto simp: createJobForRun_def Let_def)

lemma CreateTerraformRun_resources_quiet:
  "CreateTerraformRun_resources r t tr = (err, tr') \<Longrightarrow> quiet tr tr'"
  by (auto simp: CreateTerraformRun_resources_def split: prod.splits option.splits
      dest!: createRbacConfigIfNotExist_quiet createConfigMapForModule_quiet
        createSecretForOutputs_quiet createJobForRun_quiet intro: quiet_trans)

lemma CreateTerraformRun_quiet:
  "CreateTerraformRun r t tr = (err, t', tr') \<Longrightarrow> quiet tr tr'"
  by (auto simp: CreateTerraformRun_def Let_def split: prod.splits
      dest: CreateTerraformRun_resources_quiet)

lemma updateRunStatus_eq:
  "updateRunStatus r t S tr =
     (Status_Update r (stamp_status r t S), stamp_status r t S,
      (if S = RunCompleted \<or> S = RunFailed \<or> S = RunWaitingForDependency
       then tr @ [RecordStatus (Name t) (Namespace t) S] else tr) @
      [ClientStatusUpdate (stamp_status r t S)])"
  by (simp add: updateRunStatus_def stamp_status_def Let_def)

lemma stamp_status_fields:
  "RunStatus (Status (stamp_status r t S)) = S"
  "ObservedGeneration (Status (stamp_status r t S)) = Generation t"
  "Generation (stamp_status r t S) = Generation t"
  "Name (stamp_status r t S) = Name t"
  "Namespace (stamp_status r t S) = Namespace t"
  "Spec (stamp_status r t S) = Spec t"
  "RunID (Status (stamp_status r t S)) = RunID (Status t)"
  by (simp_all add: stamp_status_def Let_def)

lemma updateRunStatus_effects:
  "updateRunStatus r t S tr = (err, t', tr') \<Longrightarrow>
     t' = stamp_status r t S \<and> err = Status_Update r t' \<and>
     status_writes tr' = status_writes tr @ [t'] \<and>
     metadata_writes tr' = metadata_writes tr \<and> events tr' = events tr \<and>
     deletes tr' = deletes tr"
  by (auto simp: updateRunStatus_eq proj_simps)

lemma SetVariablesFromDependencies_run:
  "SetVariablesFromDependencies t deps = Inr t' \<Longrightarrow>
     Status t' = Status t \<and> Generation t' = Generation t \<and> Name t' = Name t \<and>
     Namespace t' = Namespace t"
  by (auto simp: SetVariablesFromDependencies_def split: if_splits sum.splits)

lemma SetRunID_run:
  "Generation (SetRunID reader t) = Generation t \<and> Name (SetRunID reader t) = Name t \<and>
   Namespace (SetRunID reader t) = Namespace t \<and> Spec (SetRunID reader t) = Spec t"
  by (simp add: SetRunID_def Let_def)

lemma CreateTerraformRun_run:
  "CreateTerraformRun r t tr = (err, t', tr') \<Longrightarrow> t' = SetRunID (rand_Reader r) t"
  by (auto simp: CreateTerraformRun_def Let_def split: prod.splits)

lemma quiet_status_stamped: "quiet tr tr' \<Longrightarrow> status_stamped g tr tr'"
  by (simp add: quiet_def status_stamped_def)

lemma updateRunStatus_status_stamped:
  "updateRunStatus r t S tr1 = (err, t', tr') \<Longrightarrow> quiet tr tr1 \<Longrightarrow>
     status_stamped (Generation t) tr tr'"
  by (auto simp: status_stamped_def quiet_def stamp_status_fields dest!: updateRunStatus_effects)

lemma quiet_event: "quiet tr tr1 \<Longrightarrow> status_writes (tr1 @ [RecorderEvent a b c]) = status_writes tr \<and>
    metadata_writes (tr1 @ [RecorderEvent a b c]) = metadata_writes tr"
  by (simp add: quiet_def proj_simps)

lemma updateRunStatus_status_stamped':
  "updateRunStatus r t S tr1 = (err, t', tr') \<Longrightarrow>
     status_writes tr1 = status_writes tr \<Longrightarrow> metadata_writes tr1 = metadata_writes tr \<Longrightarrow>
     status_stamped (Generation t) tr tr'"
  by (auto simp: status_stamped_def stamp_status_fields dest!: updateRunStatus_effects)

lemma handleRunCreate_status_stamped:
  "handleRunCreate r t tr = res \<Longrightarrow>
     (case res of
        Inl (p, tr') \<Rightarrow> status_stamped (Generation t) tr tr'
      | Inr (result, err, t', tr') \<Rightarrow> status_stamped (Generation t) tr tr')"
proof -
  assume h: "handleRunCreate r t tr = res"
  obtain t1 deps e tr1 where cd: "CheckDependencies r t tr = (t1, deps, e, tr1)"
    by (metis prod_cases4)
  from CheckDependencies_quiet[OF cd] have q1: "quiet tr tr1" .
  from CheckDependencies_run[OF cd] have g1: "Generation t1 = Generation t" by simp
  show ?thesis
  proof (cases e)
    case (Some err)
    show ?thesis
    proof (cases "IsWaiting t1")
      case True
      with h cd Some q1 show ?thesis
        by (auto simp: handleRunCreate_def quiet_status_stamped)
    next
      case False
      obtain err' t' tr2 where u: "updateRunStatus r t1 RunWaitingForDependency
          (tr1 @ [RecorderEvent ''Normal'' ''Waiting'' ''Dependencies are not yet completed''])
          = (err', t', tr2)" by (metis prod_cases3)
      from updateRunStatus_status_stamped'[OF u] quiet_event[OF q1] g1
      have "status_stamped (Generation t) tr tr2" by simp
      with h cd Some False u show ?thesis
        by (auto simp: handleRunCreate_def)
    qed
  next
    case None
    show ?thesis
    proof (cases "SetVariablesFromDependencies t1 deps")
      case (Inl p)
      with h cd None q1 show ?thesis
        by (auto simp: handleRunCreate_def quiet_status_stamped)
    next
      case (Inr t2)
      from SetVariablesFromDependencies_run[OF Inr] g1 have g2: "Generation t2 = Generation t"
        by simp
      obtain cerr t3 tr2 where c: "CreateTerraformRun r t2 tr1 = (cerr, t3, tr2)"
        by (metis prod_cases3)
      from CreateTerraformRun_quiet[OF c] q1 have q2: "quiet tr tr2" by (blast intro: quiet_trans)
      from CreateTerraformRun_run[OF c] g2 SetRunID_run have g3: "Generation t3 = Generation t"
        by simp
      show ?thesis
      proof (cases cerr)
        case (Some err)
        obtain err' t4 tr3 where u: "updateRunStatus r t3 RunFailed tr2 = (err', t4, tr3)"
          by (metis prod_cases3)
        from updateRunStatus_status_stamped[OF u q2] g3
        have "status_stamped (Generation t) tr tr3" by simp
        with h cd None Inr c Some u show ?thesis
          by (auto simp: handleRunCreate_def)
      next
        case cNone: None
        obtain clerr tr3 where cl: "CleanupResources r t3 tr2 = (clerr, tr3)" by fastforce
        from CleanupResources_quiet[OF cl] q2 have q3: "quiet tr tr3" by (blast intro: quiet_trans)
        obtain err' t4 tr4 where u: "updateRunStatus r t3 RunStarted tr3 = (err', t4, tr4)"
          by (metis prod_cases3)
        from updateRunStatus_status_stamped[OF u q3] g3
        have "status_stamped (Generation t) tr tr4" by simp
        with h cd None Inr c cNone cl u show ?thesis
          by (auto simp: handleRunCreate_def)
      qed
    qed
  qed
qed

lemma job_succeeded_status_stamped:
  assumes "job_succeeded r t tr1 = (res, err, t', tr')" and q: "quiet tr tr1"
  shows "status_stamped (Generation t) tr tr'"
proof -
  define trd where "trd = (if DeleteCompletedJobs (Spec t)
                 then (case DeleteAfterCompletion r t tr1 of
                         (Some err, tr') \<Rightarrow> tr'
                       | (None, tr') \<Rightarrow>
                           tr' @ [RecorderEvent ''Normal'' ''Cleanup''
                                    (run_message t ''kubernetes job was deleted'')])
                 else tr1)"
  have d: "status_writes trd = status_writes tr \<and> metadata_writes trd = metadata_writes tr"
    using q
    by (auto simp: trd_def DeleteAfterCompletion_def quiet_def proj_simps
        split: prod.splits option.splits dest!: deleteJobByRun_quiet)
  define tre where "tre = (if Destroy (Spec t)
                 then trd @ [RecorderEvent ''Normal'' ''Destroyed''
                               (run_message t ''completed with terraform destroy'')]
                 else trd @ [RecorderEvent ''Normal'' ''Completed'' (run_message t ''completed'')])"
  have e: "status_writes tre = status_writes tr \<and> metadata_writes tre = metadata_writes tr"
    using d by (simp add: tre_def proj_simps)
  obtain err' t2 tr2 where u: "updateRunStatus r t RunCompleted tre = (err', t2, tr2)"
    by (metis prod_cases3)
  from updateRunStatus_status_stamped'[OF u] e
  have "status_stamped (Generation t) tr tr2" by simp
  moreover from assms(1) u have "tr' = tr2"
    by (simp add: job_succeeded_def Let_def trd_def[symmetric] tre_def[symmetric])
  ultimately show ?thesis by simp
qed

lemma watch_job_status_stamped:
  assumes w: "watch_job r t job tr1 = (res, err, t', tr')" and q: "quiet tr tr1"
  shows "status_stamped (Generation t) tr tr'"
proof -
  have ev: "status_writes (tr1 @ [RecorderEvent a b c]) = status_writes tr \<and>
            metadata_writes (tr1 @ [RecorderEvent a b c]) = metadata_writes tr" for a b c
    using q by (rule quiet_event)
  show ?thesis
    using w q ev
    by (auto simp: watch_job_def split: if_splits prod.splits
        dest: job_succeeded_status_stamped[where tr = tr]
          updateRunStatus_status_stamped'[where tr = tr]
        intro: quiet_status_stamped)
qed

lemma status_stamped_metric:
  "status_stamped g tr tr' \<Longrightarrow> status_stamped g tr (tr' @ [RecordDuration a b c])"
  by (auto simp: status_stamped_def proj_simps)

lemma handleRunJobWatch_status_stamped:
  assumes h: "handleRunJobWatch r t tr = (res, err, t', tr')"
  shows "status_stamped (Generation t) tr tr'"
proof (cases "Get_Job r tr (unique_name t (RunID (Status t)))")
  case (Inl e)
  with h have "tr' = tr @ [ClientGet KindJob (unique_name t (RunID (Status t)))]"
    by (auto simp: handleRunJobWatch_def GetJobForRun_def Let_def)
  then show ?thesis by (simp add: quiet_status_stamped)
next
  case (Inr job)
  let ?tr1 = "tr @ [ClientGet KindJob (unique_name t (RunID (Status t)))]"
  obtain res2 err2 t2 tr2 where w: "watch_job r t job ?tr1 = (res2, err2, t2, tr2)"
    by (metis prod_cases4)
  have "quiet tr ?tr1" by simp
  from watch_job_status_stamped[OF w this] have "status_stamped (Generation t) tr tr2" .
  moreover from h Inr w obtain tm where "tr' = tr2 @ [RecordDuration (Name t) (Namespace t) tm]"
    by (auto simp: handleRunJobWatch_def GetJobForRun_def Let_def)
  ultimately show ?thesis by (simp add: status_stamped_metric)
qed

lemma status_stamped_start:
  assumes "status_stamped g [ClientGet k n] tr'"
  shows "list_all (\<lambda>t'. ObservedGeneration (Status t') = g \<and> Generation t' = g) (status_writes tr') \<and>
         metadata_writes tr' = []"
  using assms by (auto simp: status_stamped_def proj_simps)

lemma handleRunDelete_writes:
  "handleRunDelete r t tr = (res, err, t', tr') \<Longrightarrow>
     status_writes tr' = status_writes tr \<and>
     metadata_writes tr' = metadata_writes tr @ [RemoveFinalizer t TerraformFinalizer]"
  by (auto simp: handleRunDelete_def Let_def proj_simps split: option.splits)

lemma Reconcile_writes:
  assumes g: "Get_Terraform r req = Inr t"
  shows "list_all (\<lambda>t'. ObservedGeneration (Status t') = Generation t \<and> Generation t' = Generation t)
           (status_writes (effects_of (Reconcile r req))) \<and>
         list_all (\<lambda>t'. Status t' = Status t \<and> Generation t' = Generation t)
           (metadata_writes (effects_of (Reconcile r req)))"
proof -
  let ?tr = "[ClientGet KindTerraform req]"
  let ?P = "\<lambda>tr'. list_all (\<lambda>t'. ObservedGeneration (Status t') = Generation t \<and> Generation t' = Generation t)
           (status_writes tr') \<and>
         list_all (\<lambda>t'. Status t' = Status t \<and> Generation t' = Generation t)
           (metadata_writes tr')"
  have stamped: "status_stamped (Generation t) ?tr tr' \<Longrightarrow> ?P tr'" for tr'
    using status_stamped_start[of "Generation t" KindTerraform req tr'] by simp
  consider (fin) "\<not> ContainsFinalizer t TerraformFinalizer"
    | (del) "ContainsFinalizer t TerraformFinalizer" "DeletionTimestamp t \<noteq> None"
    | (create) "ContainsFinalizer t TerraformFinalizer" "DeletionTimestamp t = None"
        "IsSubmitted t \<or> IsWaiting t"
    | (watch) "ContainsFinalizer t TerraformFinalizer" "DeletionTimestamp t = None"
        "\<not> (IsSubmitted t \<or> IsWaiting t)" "IsStarted t"
    | (update) "ContainsFinalizer t TerraformFinalizer" "DeletionTimestamp t = None"
        "\<not> (IsSubmitted t \<or> IsWaiting t)" "\<not> IsStarted t" "IsUpdated t"
    | (none) "ContainsFinalizer t TerraformFinalizer" "DeletionTimestamp t = None"
        "\<not> (IsSubmitted t \<or> IsWaiting t)" "\<not> IsStarted t" "\<not> IsUpdated t"
    by blast
  then show ?thesis
  proof cases
    case fin
    with g show ?thesis
      by (auto simp: Reconcile_def Let_def effects_of_def proj_simps AddFinalizer_def
          split: option.splits)
  next
    case del
    obtain res err t' tr' where h: "handleRunDelete r t ?tr = (res, err, t', tr')"
      by (metis prod_cases4)
    from handleRunDelete_writes[OF h] have "?P tr'"
      by (simp add: proj_simps RemoveFinalizer_def)
    with g del h show ?thesis
      by (simp add: Reconcile_def Let_def effects_of_def)
  next
    case create
    have "?P (effects_of (reconcile_create r t ?tr))"
      using handleRunCreate_status_stamped[OF refl, where r = r and t = t and tr = ?tr]
      by (auto simp: reconcile_create_def effects_of_def proj_simps
          split: sum.splits prod.splits option.splits dest!: stamped)
    with g create show ?thesis
      by (simp add: Reconcile_def Let_def)
  next
    case watch
    obtain res err t' tr' where h: "handleRunJobWatch r t ?tr = (res, err, t', tr')"
      by (metis prod_cases4)
    from stamped[OF handleRunJobWatch_status_stamped[OF h]] have "?P tr'" .
    with g watch h show ?thesis
      by (cases err) (simp_all add: Reconcile_def Let_def effects_of_def)
  next
    case update
    have "?P (effects_of (reconcile_update r t ?tr))"
      using handleRunCreate_status_stamped[OF refl, where r = r and t = t and
          tr = "?tr @ [RecorderEvent ''Normal'' ''Updated'' ''Creating a new run job'']"]
      by (auto simp: reconcile_update_def handleRunUpdate_def effects_of_def
          status_stamped_def proj_simps
          split: sum.splits prod.splits option.splits if_splits)
    with g update show ?thesis
      by (simp add: Reconcile_def Let_def)
  next
    case none
    with g show ?thesis
      by (simp add: Reconcile_def Let_def effects_of_def proj_simps)
  qed
qed

section \<open>Facts about the renderer\<close>

named_theorems render_defs

lemmas render_parts [render_defs] =
  render_main_tf_def render_backend_def render_required_version_def render_providers_def
  render_variable_decl_def render_module_head_def render_module_version_def
  render_variable_arg_def render_output_def

lemma render_example: "render_main_tf example_spec = expectedFile"
  by (simp add: render_defs example_spec_def plain_var_def expectedFile_def)

lemma GetTerraformModuleFromTemplate_total:
  "GetTerraformModuleFromTemplate t = Inr (render_main_tf (Spec t))"
  by (simp add: GetTerraformModuleFromTemplate_def template_Parse_def template_Execute_def)

lemma render_main_tf_without_backend:
  "Backend sp = [] \<Longrightarrow>
     render_main_tf sp = ''terraform {'' @ render_required_version sp @ render_providers sp @
       concat (map render_variable_decl (Variables sp)) @
       render_module_head sp @ render_module_version sp @
       concat (map render_variable_arg (Variables sp)) @
       NL @ TAB @ ''}'' @ concat (map render_output (Outputs sp))"
  by (simp add: render_main_tf_def render_backend_def)

lemma render_main_tf_backend_verbatim:
  "Backend sp \<noteq> [] \<Longrightarrow>
     render_main_tf sp = ''terraform {'' @ NL @ TAB @ TAB @ Backend sp @
       render_required_version sp @ render_providers sp @
       concat (map render_variable_decl (Variables sp)) @
       render_module_head sp @ render_module_version sp @
       concat (map render_variable_arg (Variables sp)) @
       NL @ TAB @ ''}'' @ concat (map render_output (Outputs sp))"
  by (simp add: render_main_tf_def render_backend_def)

lemma default_backend_nonempty: "default_backend name namespace \<noteq> []"
  by (simp add: default_backend_def)

lemma render_main_tf_with_default:
  "Backend (Spec t) = [] \<Longrightarrow>
     \<exists>rest. render_main_tf (Spec (setBackendCfgIfNotExist t)) =
       ''terraform {'' @ NL @ TAB @ TAB @ default_backend (Name t) (Namespace t) @ rest"
  by (simp add: setBackendCfgIfNotExist_def render_main_tf_def render_backend_def
      default_backend_nonempty)

lemma no_backend_in_expectedFile: "\<not> sublist ''backend'' expectedFile"
  by (simp add: expectedFile_def NL_def TAB_def sublist_Cons_right)

lemma createConfigMapForModule_main_tf:
  "createConfigMapForModule r t tr =
     (Create r (ConfigMap (unique_name t (RunID (Status t))) (render_main_tf (Spec t))),
      tr @ [ClientCreate (ConfigMap (unique_name t (RunID (Status t))) (render_main_tf (Spec t)))])"
  by (simp add: createConfigMapForModule_def GetConfigMapSpecForModule_def
      GetTerraformModuleFromTemplate_total unique_name_def)

section \<open>Facts about the service account and the role binding\<close>

lemma createRoleBindingIfNotExist_result:
  "(fst (createRoleBindingIfNotExist r t tr) = None) =
     object_ensured r KindRoleBinding (GetRoleBindingName t) (GetRoleBinding t)"
  by (auto simp: createRoleBindingIfNotExist_def isRoleBindingExist_def createRoleBinding_def
      object_ensured_def Let_def split: option.splits)

lemma createRbacConfigIfNotExist_namespace:
  assumes ns: "Namespace t' = Namespace t"
  shows "createRbacConfigIfNotExist r t' tr = createRbacConfigIfNotExist r t tr"
proof -
  have sa: "isServiceAccountExist r t' = isServiceAccountExist r t"
    by (simp add: fun_eq_iff isServiceAccountExist_def GetServiceAccountName_def ns)
  have csa: "createServiceAccount r t' = createServiceAccount r t"
    by (simp add: fun_eq_iff createServiceAccount_def GetServiceAccount_def
        GetServiceAccountName_def ns)
  have rb: "isRoleBindingExist r t' = isRoleBindingExist r t"
    by (simp add: fun_eq_iff isRoleBindingExist_def GetRoleBindingName_def ns)
  have crb: "createRoleBinding r t' = createRoleBinding r t"
    by (simp add: fun_eq_iff createRoleBinding_def GetRoleBinding_def GetRoleBindingName_def ns)
  have rbi: "createRoleBindingIfNotExist r t' = createRoleBindingIfNotExist r t"
    unfolding createRoleBindingIfNotExist_def rb crb ..
  show ?thesis
    unfolding createRbacConfigIfNotExist_def sa csa rbi ..
qed

lemma createRbacConfigIfNotExist_SetRunID:
  "createRbacConfigIfNotExist r (SetRunID reader t) tr = createRbacConfigIfNotExist r t tr"
  by (rule createRbacConfigIfNotExist_namespace) (simp add: SetRunID_def Let_def)

section \<open>Two passes over a new run\<close>

text \<open>
  The first reconciliation of a run registers the finalizer and does nothing else; the
  next one creates the five objects, writes the status Started with the new run id and the
  name of the output secret, and emits the Created event.
\<close>

lemma Reconcile_adds_finalizer:
  "Reconcile (fresh_reconciler (bar_run\<lparr>Finalizers := []\<rparr>)) fresh_request =
     Inr (Result_zero, None,
       [ClientGet KindTerraform fresh_request,
        ClientUpdate (bar_run\<lparr>Finalizers := [TerraformFinalizer]\<rparr>),
        RecorderEvent ''Normal'' ''Added finalizer'' ''Object finalizer is added''])"
  by (simp add: Reconcile_def fresh_reconciler_def example_reconciler_def bar_run_def
      ContainsFinalizer_def AddFinalizer_def Let_def)

lemma Reconcile_submits:
  "(case Reconcile (fresh_reconciler bar_run) fresh_request of
      Inl p \<Rightarrow> False
    | Inr (res, err, tr) \<Rightarrow>
        res = Result_zero \<and> err = None \<and>
        map (\<lambda>t. (RunStatus (Status t), RunID (Status t), OutputSecretName (Status t),
                   ObservedGeneration (Status t))) (status_writes tr) =
          [(RunStarted, ''abcdef'', ''bar-outputs'', 1)] \<and>
        events tr = [(''Normal'', ''Created'', ''Run(abcdef) submitted'')] \<and>
        length (creates tr) = 5 \<and> deletes tr = [])"
  by (simp add: Reconcile_def reconcile_create_def handleRunCreate_def
      CheckDependencies_def SetVariablesFromDependencies_def CreateTerraformRun_def
      CreateTerraformRun_resources_def createRbacConfigIfNotExist_def
      createRoleBindingIfNotExist_def isServiceAccountExist_def isRoleBindingExist_def
      createServiceAccount_def createRoleBinding_def createConfigMapForModule_main_tf
      createSecretForOutputs_def createJobForRun_def CleanupResources_def
      updateRunStatus_eq stamp_status_def SetRunID_def random_identity_reader
      GetOutputSecretName_def getOutputSecretName_def truncateResourceName_def
      fresh_reconciler_def example_reconciler_def bar_run_def example_spec_def empty_status_def
      ContainsFinalizer_def IsSubmitted_def IsWaiting_def run_message_def
      proj_simps Let_def run_status_defs)

section \<open>Dependency resolution succeeds exactly when every dependency is ready\<close>


text \<open>
  On the example cluster: the run \<^verbatim>\<open>network\<close> is found in the parent's namespace and is
  ready, so the parent's dependencies resolve to it; a parent that also depends on the
  edited run \<^verbatim>\<open>dns\<close> gets an error.
\<close>

lemma CheckDependencies_example_ready:
  "check_result (CheckDependencies example_reconciler parent_run []) =
     ([completed_run ''network''], None)"
  by (simp add: CheckDependencies_def check_result_def parent_run_def example_spec_def
      example_reconciler_def example_get_def default_namespace_def completed_run_def
      empty_status_def run_status_defs)

lemma CheckDependencies_example_not_ready:
  "check_result (CheckDependencies example_reconciler
      (parent_run\<lparr>Spec := (Spec parent_run)\<lparr>DependsOn :=
         [\<lparr>dep_Name = ''network'', dep_Namespace = ''default''\<rparr>,
          \<lparr>dep_Name = ''dns'', dep_Namespace = []\<rparr>]\<rparr>\<rparr>) []) =
     ([completed_run ''network''],
      Some (DependencyNotReady \<lparr>nn_Namespace = ''default'', nn_Name = ''dns''\<rparr>))"
  by (simp add: CheckDependencies_def check_result_def parent_run_def example_spec_def
      example_reconciler_def example_get_def default_namespace_def completed_run_def
      edited_run_def empty_status_def run_status_defs Let_def)


section \<open>The variable rewrite removes the wrong variable\<close>

text \<open>
  Claim C2 says that \<^verbatim>\<open>SetVariablesFromDependencies\<close> replaces each variable that refers to a
  resolved dependency of the run's namespace by the variable with the secret key reference,
  keeps every other variable, and loses or duplicates none. The code removes the variable at
  the position of the \<^emph>\<open>dependency\<close> in the dependency list, not the variable it is looking
  at. For the run \<open>parent_run\<close>, whose variables are the literal \<^verbatim>\<open>region\<close> and the reference
  \<^verbatim>\<open>vpc_id\<close> to the only dependency \<^verbatim>\<open>network\<close>, the result holds \<^verbatim>\<open>vpc_id\<close> twice (as it was,
  and rewritten) and \<^verbatim>\<open>region\<close> is gone, while the one-pass rewrite of the specification keeps
  \<^verbatim>\<open>region\<close> and holds the rewritten \<^verbatim>\<open>vpc_id\<close> once.
\<close>

theorem SetVariablesFromDependencies_drops_variable:
  "SetVariablesFromDependencies parent_run [completed_run ''network''] =
     Inr (parent_run\<lparr>Spec := (Spec parent_run)\<lparr>Variables :=
       [ref_var ''vpc_id'' ''network'' ''id'',
        tfVar_of (ref_var ''vpc_id'' ''network'' ''id'')
          \<lparr>ref_Name = ''network'', ref_Key = ''id''\<rparr> (completed_run ''network'')]\<rparr>\<rparr>) \<and>
   map (rewrite_variable (Namespace parent_run) [completed_run ''network''])
       (Variables (Spec parent_run)) =
     [plain_var ''region'' ''eu'',
      tfVar_of (ref_var ''vpc_id'' ''network'' ''id'')
        \<lparr>ref_Name = ''network'', ref_Key = ''id''\<rparr> (completed_run ''network'')] \<and>
   plain_var ''region'' ''eu'' \<noteq> ref_var ''vpc_id'' ''network'' ''id''"
  by (simp add: SetVariablesFromDependencies_def rewrite_variable_def parent_run_def
      completed_run_def ref_var_def plain_var_def remove_and_append_def upt_rec Let_def)

text \<open>
  When the matching dependency stands at a position beyond the variables, the slice
  expression of the removal is out of range and the program panics: one variable, and its
  dependency second in the list.
\<close>

lemma SetVariablesFromDependencies_panics:
  "SetVariablesFromDependencies
     (parent_run\<lparr>Spec := (Spec parent_run)\<lparr>Variables := [ref_var ''vpc_id'' ''network'' ''id'']\<rparr>\<rparr>)
     [completed_run ''dns'', completed_run ''network''] = Inl (SliceBoundsOutOfRange 2 1)"
  by (simp add: SetVariablesFromDependencies_def parent_run_def completed_run_def ref_var_def
      plain_var_def remove_and_append_def upt_rec Let_def)

text \<open>With a single variable and its dependency first, the rewrite is the intended one.\<close>

lemma SetVariablesFromDependencies_single:
  "SetVariablesFromDependencies
     (parent_run\<lparr>Spec := (Spec parent_run)\<lparr>Variables := [ref_var ''vpc_id'' ''network'' ''id'']\<rparr>\<rparr>)
     [completed_run ''network''] =
   Inr (parent_run\<lparr>Spec := (Spec parent_run)\<lparr>Variables :=
       [tfVar_of (ref_var ''vpc_id'' ''network'' ''id'')
          \<lparr>ref_Name = ''network'', ref_Key = ''id''\<rparr> (completed_run ''network'')]\<rparr>\<rparr>)"
  by (simp add: SetVariablesFromDependencies_def parent_run_def completed_run_def ref_var_def
      plain_var_def remove_and_append_def upt_rec Let_def tfVar_of_def)

section \<open>Waiting for dependencies\<close>

text \<open>
  What \<^verbatim>\<open>handleRunCreate\<close> returns when \<^verbatim>\<open>CheckDependencies\<close> reports an error, written out.
\<close>

lemma handleRunCreate_on_failure:
  assumes cd: "CheckDependencies r t tr = (t1, deps, Some e, tr1)"
  shows "handleRunCreate r t tr =
    (if RunStatus (Status t) = ''WaitingForDependency''
     then Inr (\<lparr>Requeue = False, RequeueAfter = requeueDependency r\<rparr>, None, t1, tr1)
     else Inr (\<lparr>Requeue = False, RequeueAfter = requeueDependency r\<rparr>,
               Status_Update r (stamp_status r t1 ''WaitingForDependency''),
               stamp_status r t1 ''WaitingForDependency'',
               tr1 @ [RecorderEvent ''Normal'' ''Waiting'' ''Dependencies are not yet completed'',
                      RecordStatus (Name t) (Namespace t) ''WaitingForDependency'',
                      ClientStatusUpdate (stamp_status r t1 ''WaitingForDependency'')]))"
proof -
  from CheckDependencies_run[OF cd] have st: "Status t1 = Status t" "Name t1 = Name t"
    "Namespace t1 = Namespace t" by simp_all
  then have w: "IsWaiting t1 = (RunStatus (Status t) = ''WaitingForDependency'')"
    by (simp add: IsWaiting_def run_status_defs)
  show ?thesis
    using cd w st
    by (simp add: handleRunCreate_def updateRunStatus_eq requeue_after_def run_status_defs)
qed

text \<open>
  Claim C3. When dependency resolution fails in \<^verbatim>\<open>handleRunCreate\<close>, the result asks for a
  requeue after \<open>requeueDependency\<close>. If the run's status is already WaitingForDependency,
  no error is returned, no status is written and no event is emitted. Otherwise the
  Waiting event is emitted, the status WaitingForDependency is written once, with the
  run's generation as the observed generation, and the error of that write, whatever it
  is, is the error that \<^verbatim>\<open>handleRunCreate\<close> returns.
\<close>

theorem handleRunCreate_dependency_failure:
  assumes failed: "snd (check_result (CheckDependencies r t tr)) \<noteq> None"
  shows "\<exists>res err t' tr'.
     handleRunCreate r t tr = Inr (res, err, t', tr') \<and>
     res = \<lparr>Requeue = False, RequeueAfter = requeueDependency r\<rparr> \<and>
     RequeueAfter res = requeueDependency r \<and>
     (if RunStatus (Status t) = ''WaitingForDependency''
      then err = None \<and> status_writes tr' = status_writes tr \<and> events tr' = events tr \<and>
           Status t' = Status t
      else err = Status_Update r t' \<and> status_writes tr' = status_writes tr @ [t'] \<and>
           events tr' =
             events tr @ [(''Normal'', ''Waiting'', ''Dependencies are not yet completed'')] \<and>
           RunStatus (Status t') = ''WaitingForDependency'' \<and>
           ObservedGeneration (Status t') = Generation t)"
proof -
  obtain t1 deps e tr1 where cd: "CheckDependencies r t tr = (t1, deps, Some e, tr1)"
    using failed by (cases "CheckDependencies r t tr") (auto simp: check_result_def)
  from CheckDependencies_quiet[OF cd] have q: "quiet tr tr1" .
  from CheckDependencies_run[OF cd] have st: "Status t1 = Status t" "Generation t1 = Generation t"
    by simp_all
  show ?thesis
  proof (cases "RunStatus (Status t) = ''WaitingForDependency''")
    case True
    with handleRunCreate_on_failure[OF cd] q st show ?thesis
      by (simp add: quiet_def)
  next
    case False
    with handleRunCreate_on_failure[OF cd] q st show ?thesis
      by (simp add: quiet_def proj_simps stamp_status_fields run_status_defs)
  qed
qed

text \<open>
  On the example cluster with failing status writes, the run blocked by \<^verbatim>\<open>dns\<close> is not yet
  waiting: the failed write is what \<^verbatim>\<open>handleRunCreate\<close> returns, with the requeue after 60.
  On the next pass the same run is waiting: nothing is written, and no error is returned.
\<close>

lemma blocked_run_fails:
  assumes "Get_Terraform r0 = example_get"
  shows "check_result (CheckDependencies r0 blocked_run []) =
     ([], Some (DependencyNotReady \<lparr>nn_Namespace = ''default'', nn_Name = ''dns''\<rparr>))"
  using assms
  by (simp add: CheckDependencies_def check_result_def blocked_run_def parent_run_def
      example_spec_def example_get_def default_namespace_def completed_run_def
      edited_run_def empty_status_def run_status_defs Let_def)

lemma waiting_run_fails:
  assumes "Get_Terraform r0 = example_get"
  shows "check_result (CheckDependencies r0 waiting_run []) =
     ([], Some (DependencyNotReady \<lparr>nn_Namespace = ''default'', nn_Name = ''dns''\<rparr>))"
  using assms
  by (simp add: CheckDependencies_def check_result_def waiting_run_def blocked_run_def
      parent_run_def example_spec_def example_get_def default_namespace_def completed_run_def
      edited_run_def empty_status_def run_status_defs Let_def)

theorem handleRunCreate_dependency_failure_witness:
  "snd (check_result (CheckDependencies conflict_reconciler blocked_run [])) \<noteq> None \<and>
   RunStatus (Status blocked_run) \<noteq> ''WaitingForDependency'' \<and>
   (\<exists>t' tr'.
      handleRunCreate conflict_reconciler blocked_run [] =
        Inr (\<lparr>Requeue = False, RequeueAfter = 60\<rparr>, Some (ApiError ''conflict''), t', tr') \<and>
      status_writes tr' = [t'] \<and>
      events tr' = [(''Normal'', ''Waiting'', ''Dependencies are not yet completed'')] \<and>
      RunStatus (Status t') = ''WaitingForDependency'' \<and>
      ObservedGeneration (Status t') = 1) \<and>
   snd (check_result (CheckDependencies conflict_reconciler waiting_run [])) \<noteq> None \<and>
   RunStatus (Status waiting_run) = ''WaitingForDependency'' \<and>
   (\<exists>t' tr'.
      handleRunCreate conflict_reconciler waiting_run [] =
        Inr (\<lparr>Requeue = False, RequeueAfter = 60\<rparr>, None, t', tr') \<and>
      status_writes tr' = [] \<and> events tr' = [] \<and> Status t' = Status waiting_run)"
proof -
  have g: "Get_Terraform conflict_reconciler = example_get"
    by (simp add: conflict_reconciler_def example_reconciler_def)
  have failed: "snd (check_result (CheckDependencies conflict_reconciler blocked_run [])) \<noteq> None"
    by (simp add: blocked_run_fails[OF g])
  have failed': "snd (check_result (CheckDependencies conflict_reconciler waiting_run [])) \<noteq> None"
    by (simp add: waiting_run_fails[OF g])
  have nw: "RunStatus (Status blocked_run) \<noteq> ''WaitingForDependency''"
    "Generation blocked_run = 1"
    by (simp_all add: blocked_run_def parent_run_def empty_status_def)
  have w: "RunStatus (Status waiting_run) = ''WaitingForDependency''"
    by (simp add: waiting_run_def run_status_defs)
  have rq: "requeueDependency conflict_reconciler = 60"
    and su: "Status_Update conflict_reconciler = (\<lambda>t. Some (ApiError ''conflict''))"
    by (simp_all add: conflict_reconciler_def example_reconciler_def)
  have a: "\<exists>t' tr'.
      handleRunCreate conflict_reconciler blocked_run [] =
        Inr (\<lparr>Requeue = False, RequeueAfter = 60\<rparr>, Some (ApiError ''conflict''), t', tr') \<and>
      status_writes tr' = [t'] \<and>
      events tr' = [(''Normal'', ''Waiting'', ''Dependencies are not yet completed'')] \<and>
      RunStatus (Status t') = ''WaitingForDependency'' \<and>
      ObservedGeneration (Status t') = 1"
    using handleRunCreate_dependency_failure[OF failed] nw
    by (simp add: rq su proj_simps)
  have b: "\<exists>t' tr'.
      handleRunCreate conflict_reconciler waiting_run [] =
        Inr (\<lparr>Requeue = False, RequeueAfter = 60\<rparr>, None, t', tr') \<and>
      status_writes tr' = [] \<and> events tr' = [] \<and> Status t' = Status waiting_run"
    using handleRunCreate_dependency_failure[OF failed'] w
    by (simp add: rq proj_simps)
  from failed failed' nw w a b show ?thesis
    by blast
qed

text \<open>
  \<^verbatim>\<open>Reconcile\<close> hands that error on: for a submitted run whose dependencies are not ready,
  the controller runtime receives the error of the status write with an empty result, and
  the requeue after \<open>requeueDependency\<close> only when the write succeeded.
\<close>

lemma Reconcile_dependency_failure:
  assumes g: "Get_Terraform r req = Inr t"
    and fin: "ContainsFinalizer t TerraformFinalizer" and live: "DeletionTimestamp t = None"
    and new: "IsSubmitted t" and nw: "RunStatus (Status t) \<noteq> ''WaitingForDependency''"
    and failed: "snd (check_result (CheckDependencies r t [ClientGet KindTerraform req])) \<noteq> None"
  shows "\<exists>t' tr'.
     Reconcile r req =
       Inr ((case Status_Update r t' of
               None \<Rightarrow> \<lparr>Requeue = False, RequeueAfter = requeueDependency r\<rparr>
             | Some e \<Rightarrow> \<lparr>Requeue = False, RequeueAfter = 0\<rparr>),
            Status_Update r t', tr') \<and>
     status_writes tr' = [t'] \<and> RunStatus (Status t') = ''WaitingForDependency''"
proof -
  let ?tr = "[ClientGet KindTerraform req]"
  obtain t1 deps e tr1 where cd: "CheckDependencies r t ?tr = (t1, deps, Some e, tr1)"
    using failed by (cases "CheckDependencies r t ?tr") (auto simp: check_result_def)
  from CheckDependencies_quiet[OF cd] have q: "status_writes tr1 = []"
    by (simp add: quiet_def proj_simps)
  let ?t' = "stamp_status r t1 ''WaitingForDependency''"
  have h: "handleRunCreate r t ?tr =
      Inr (\<lparr>Requeue = False, RequeueAfter = requeueDependency r\<rparr>, Status_Update r ?t', ?t',
           tr1 @ [RecorderEvent ''Normal'' ''Waiting'' ''Dependencies are not yet completed'',
                  RecordStatus (Name t) (Namespace t) ''WaitingForDependency'',
                  ClientStatusUpdate ?t'])"
    using handleRunCreate_on_failure[OF cd] nw by simp
  show ?thesis
  proof (cases "Status_Update r ?t'")
    case None
    with g fin live new h q show ?thesis
      by (auto simp: Reconcile_def reconcile_create_def Let_def proj_simps stamp_status_fields
          intro!: exI[of _ ?t'])
  next
    case (Some err)
    with g fin live new h q show ?thesis
      by (auto simp: Reconcile_def reconcile_create_def Result_zero_def Let_def proj_simps
          stamp_status_fields intro!: exI[of _ ?t'])
  qed
qed

text \<open>
  The earlier copy of \<^verbatim>\<open>handleRunCreate\<close> differs here: it returns no error even when the
  status write failed.
\<close>

lemma handleRunCreate_resources_discards_error:
  assumes failed: "snd (check_result (CheckDependencies r t tr)) \<noteq> None"
  shows "\<exists>t' tr'. handleRunCreate_resources r t tr =
           Inr (\<lparr>Requeue = False, RequeueAfter = requeueDependency r\<rparr>, None, t', tr')"
proof -
  obtain t1 deps e tr1 where cd: "CheckDependencies r t tr = (t1, deps, Some e, tr1)"
    using failed by (cases "CheckDependencies r t tr") (auto simp: check_result_def)
  then show ?thesis
    by (simp add: handleRunCreate_resources_def updateRunStatus_eq requeue_after_def)
qed

lemma handleRunCreate_resources_example:
  "\<exists>t' tr'. handleRunCreate_resources conflict_reconciler blocked_run [] =
           Inr (\<lparr>Requeue = False, RequeueAfter = 60\<rparr>, None, t', tr') \<and>
           status_writes tr' = [t'] \<and>
           Status_Update conflict_reconciler t' = Some (ApiError ''conflict'')"
  by (simp add: handleRunCreate_resources_def CheckDependencies_def blocked_run_def
      parent_run_def example_spec_def conflict_reconciler_def example_reconciler_def
      example_get_def default_namespace_def completed_run_def edited_run_def
      empty_status_def run_status_defs Let_def IsWaiting_def updateRunStatus_eq proj_simps
      requeue_after_def)

section \<open>A succeeded job completes the run\<close>

text \<open>
  Claim C4 says that whenever the job of the current run id reports a succeeded pod,
  \<^verbatim>\<open>handleRunJobWatch\<close> completes the run. The code looks at the active pods first: for a job
  that reports a succeeded pod and an active pod, the started run becomes Running, not
  Completed, and no completion time is set.
\<close>

theorem handleRunJobWatch_active_counterexample:
  "Succeeded busy_job > 0 \<and> RunStatus (Status started_run) = ''Started'' \<and>
   Get_Job (job_reconciler busy_job) []
     \<lparr>nn_Namespace = ''default'', nn_Name = ''app-abc123''\<rparr> = Inr busy_job \<and>
   RunID (Status started_run) = ''abc123'' \<and>
   RunStatus (Status (fst (snd (snd (handleRunJobWatch (job_reconciler busy_job) started_run [])))))
     = ''Running'' \<and>
   RunStatus (Status (fst (snd (snd (handleRunJobWatch (job_reconciler busy_job) started_run [])))))
     \<noteq> ''Completed'' \<and>
   CompletionTime (Status (fst (snd (snd
     (handleRunJobWatch (job_reconciler busy_job) started_run []))))) = []"
  by (simp add: handleRunJobWatch_def watch_job_def GetJobForRun_def busy_job_def
      job_reconciler_def example_reconciler_def started_run_def completed_run_def
      empty_status_def IsStarted_def IsRunning_def updateRunStatus_eq stamp_status_def
      Let_def run_status_defs)

text \<open>
  Claim C4 as amended. Let the job for the current run id be fetched with success.

  If it reports no active pod and a succeeded pod, \<^verbatim>\<open>handleRunJobWatch\<close> writes the status
  Completed with the completion time stamped and returns the error of that write. When
  \<^verbatim>\<open>deleteCompletedJobs\<close> is set it fetches the job a second time and, if that fetch succeeds,
  issues the deletion of the job with foreground propagation; when the option is not set,
  or the second fetch fails, no deletion is issued. The run completes whether or not the
  second fetch and the deletion succeed; a successful deletion adds the Cleanup event. The
  event that follows is Destroyed when \<^verbatim>\<open>destroy\<close> is set and Completed otherwise.

  If it reports an active pod, whatever the number of succeeded pods, the run is not
  completed and nothing is deleted: a run that is already Running is requeued after
  \<open>requeueJobWatch\<close> with no status written, and any other run gets the Running event and
  the status Running.
\<close>

theorem handleRunJobWatch_succeeded:
  assumes fetched: "Get_Job r tr (unique_name t (RunID (Status t))) = Inr job"
  shows "(let name = unique_name t (RunID (Status t));
              again = Get_Job r (tr @ [ClientGet KindJob name]) name;
              fetched_again = (case again of Inl e \<Rightarrow> False | Inr j \<Rightarrow> True)
          in \<exists>res err t' tr'.
     handleRunJobWatch r t tr = (res, err, t', tr') \<and>
     (Active job \<le> 0 \<and> 0 < Succeeded job \<longrightarrow>
        res = \<lparr>Requeue = False, RequeueAfter = 0\<rparr> \<and> err = Status_Update r t' \<and>
        RunStatus (Status t') = ''Completed'' \<and>
        CompletionTime (Status t') = time_Format r (time_Now r) UnixDate \<and>
        status_writes tr' = status_writes tr @ [t'] \<and>
        deletes tr' = deletes tr @
          (if DeleteCompletedJobs (Spec t) \<and> fetched_again
           then [(KindJob, name, DeletePropagationForeground)] else []) \<and>
        events tr' = events tr @
          (if DeleteCompletedJobs (Spec t) \<and> fetched_again \<and> Delete r KindJob name = None
           then [(''Normal'', ''Cleanup'',
                  ''Run('' @ RunID (Status t) @ '') kubernetes job was deleted'')]
           else []) @
          [if Destroy (Spec t)
           then (''Normal'', ''Destroyed'',
                 ''Run('' @ RunID (Status t) @ '') completed with terraform destroy'')
           else (''Normal'', ''Completed'', ''Run('' @ RunID (Status t) @ '') completed'')]) \<and>
     (0 < Active job \<longrightarrow>
        RunStatus (Status t') = ''Running'' \<and>
        CompletionTime (Status t') = CompletionTime (Status t) \<and>
        deletes tr' = deletes tr \<and>
        (if RunStatus (Status t) = ''Running''
         then res = \<lparr>Requeue = False, RequeueAfter = requeueJobWatch r\<rparr> \<and> err = None \<and>
              status_writes tr' = status_writes tr \<and> events tr' = events tr
         else res = \<lparr>Requeue = False, RequeueAfter = 0\<rparr> \<and> err = Status_Update r t' \<and>
              status_writes tr' = status_writes tr @ [t'] \<and>
              events tr' = events tr @
                [(''Normal'', ''Running'',
                  ''Run('' @ RunID (Status t) @ '') waiting for run job to finish'')])))"
proof (cases "0 < Active job")
  case True
  with fetched show ?thesis
    by (auto simp: handleRunJobWatch_def watch_job_def GetJobForRun_def updateRunStatus_eq
        IsRunning_def requeue_after_def Result_zero_def run_message_def Let_def proj_simps
        stamp_status_def run_status_defs)
next
  case False
  with fetched show ?thesis
    by (auto simp: handleRunJobWatch_def watch_job_def job_succeeded_def GetJobForRun_def
        DeleteAfterCompletion_def deleteJobByRun_def updateRunStatus_eq Result_zero_def
        run_message_def Let_def proj_simps stamp_status_def run_status_defs
        split: option.splits sum.splits)
qed

text \<open>
  Four passes over the run \<^verbatim>\<open>app\<close>, whose job is \<^verbatim>\<open>app-abc123\<close>. With the succeeded job and
  \<^verbatim>\<open>deleteCompletedJobs\<close> set: in the cluster that refuses to delete, the deletion is issued
  and the run completes without the Cleanup event; in the cluster where the job is gone at
  the second fetch, no deletion is issued and the run completes; in the cluster that
  deletes, the Cleanup event precedes the Completed event. With the job that is still
  active, the Running run is requeued after 20 and nothing is written.
\<close>

theorem handleRunJobWatch_succeeded_witness:
  "Get_Job undeletable_reconciler [] (unique_name cleanup_run (RunID (Status cleanup_run))) =
     Inr succeeded_job \<and>
   Get_Job vanished_reconciler [] (unique_name cleanup_run (RunID (Status cleanup_run))) =
     Inr succeeded_job \<and>
   Get_Job (job_reconciler succeeded_job) []
     (unique_name cleanup_run (RunID (Status cleanup_run))) = Inr succeeded_job \<and>
   Get_Job (job_reconciler busy_job) [] (unique_name running_run (RunID (Status running_run))) =
     Inr busy_job \<and>
   Active succeeded_job \<le> 0 \<and> 0 < Succeeded succeeded_job \<and> 0 < Active busy_job \<and>
   (\<exists>t' tr'.
      handleRunJobWatch undeletable_reconciler cleanup_run [] =
        (\<lparr>Requeue = False, RequeueAfter = 0\<rparr>, None, t', tr') \<and>
      RunStatus (Status t') = ''Completed'' \<and>
      CompletionTime (Status t') = ''Thu Jan  1 00:00:00 UTC 1970'' \<and>
      status_writes tr' = [t'] \<and>
      deletes tr' =
        [(KindJob, \<lparr>nn_Namespace = ''default'', nn_Name = ''app-abc123''\<rparr>,
          DeletePropagationForeground)] \<and>
      events tr' = [(''Normal'', ''Completed'', ''Run(abc123) completed'')]) \<and>
   (\<exists>t' tr'.
      handleRunJobWatch vanished_reconciler cleanup_run [] =
        (\<lparr>Requeue = False, RequeueAfter = 0\<rparr>, None, t', tr') \<and>
      RunStatus (Status t') = ''Completed'' \<and>
      CompletionTime (Status t') = ''Thu Jan  1 00:00:00 UTC 1970'' \<and>
      status_writes tr' = [t'] \<and> deletes tr' = [] \<and>
      events tr' = [(''Normal'', ''Completed'', ''Run(abc123) completed'')]) \<and>
   (\<exists>t' tr'.
      handleRunJobWatch (job_reconciler succeeded_job) cleanup_run [] =
        (\<lparr>Requeue = False, RequeueAfter = 0\<rparr>, None, t', tr') \<and>
      RunStatus (Status t') = ''Completed'' \<and>
      status_writes tr' = [t'] \<and>
      deletes tr' =
        [(KindJob, \<lparr>nn_Namespace = ''default'', nn_Name = ''app-abc123''\<rparr>,
          DeletePropagationForeground)] \<and>
      events tr' = [(''Normal'', ''Cleanup'', ''Run(abc123) kubernetes job was deleted''),
                    (''Normal'', ''Completed'', ''Run(abc123) completed'')]) \<and>
   (\<exists>t' tr'.
      handleRunJobWatch (job_reconciler busy_job) running_run [] =
        (\<lparr>Requeue = False, RequeueAfter = 20\<rparr>, None, t', tr') \<and>
      RunStatus (Status t') = ''Running'' \<and> CompletionTime (Status t') = [] \<and>
      status_writes tr' = [] \<and> deletes tr' = [] \<and> events tr' = [])"
proof -
  have n: "unique_name cleanup_run ''abc123'' =
      \<lparr>nn_Namespace = ''default'', nn_Name = ''app-abc123''\<rparr>"
    "unique_name running_run ''abc123'' =
      \<lparr>nn_Namespace = ''default'', nn_Name = ''app-abc123''\<rparr>"
    by (simp_all add: unique_name_def getUniqueResourceName_def truncateResourceName_def
        cleanup_run_def running_run_def started_run_def completed_run_def empty_status_def)
  have j: "Get_Job undeletable_reconciler []
      (unique_name cleanup_run (RunID (Status cleanup_run))) = Inr succeeded_job"
    "Get_Job vanished_reconciler []
      (unique_name cleanup_run (RunID (Status cleanup_run))) = Inr succeeded_job"
    "Get_Job (job_reconciler succeeded_job) []
      (unique_name cleanup_run (RunID (Status cleanup_run))) = Inr succeeded_job"
    "Get_Job (job_reconciler busy_job) []
      (unique_name running_run (RunID (Status running_run))) = Inr busy_job"
    by (simp_all add: undeletable_reconciler_def vanished_reconciler_def job_reconciler_def
        example_reconciler_def)
  have c: "Active succeeded_job \<le> 0" "0 < Succeeded succeeded_job" "0 < Active busy_job"
    by (simp_all add: succeeded_job_def busy_job_def)
  have f: "DeleteCompletedJobs (Spec cleanup_run)" "\<not> Destroy (Spec cleanup_run)"
    "RunID (Status cleanup_run) = ''abc123''" "RunID (Status running_run) = ''abc123''"
    "RunStatus (Status running_run) = ''Running''" "CompletionTime (Status running_run) = []"
    by (simp_all add: cleanup_run_def running_run_def started_run_def completed_run_def
        example_spec_def empty_status_def run_status_defs)
  have e: "Status_Update undeletable_reconciler = (\<lambda>t. None)"
    "Delete undeletable_reconciler = (\<lambda>k n. Some (ApiError ''forbidden''))"
    "time_Format undeletable_reconciler = (\<lambda>tm l. ''Thu Jan  1 00:00:00 UTC 1970'')"
    "Get_Job undeletable_reconciler = (\<lambda>tr n. Inr succeeded_job)"
    by (simp_all add: undeletable_reconciler_def job_reconciler_def example_reconciler_def)
  have v: "Status_Update vanished_reconciler = (\<lambda>t. None)"
    "time_Format vanished_reconciler = (\<lambda>tm l. ''Thu Jan  1 00:00:00 UTC 1970'')"
    "Get_Job vanished_reconciler =
       (\<lambda>tr n. if tr = [] then Inr succeeded_job else Inl NotFound)"
    by (simp_all add: vanished_reconciler_def example_reconciler_def)
  have s: "Status_Update (job_reconciler succeeded_job) = (\<lambda>t. None)"
    "Delete (job_reconciler succeeded_job) = (\<lambda>k n. None)"
    "Get_Job (job_reconciler succeeded_job) = (\<lambda>tr n. Inr succeeded_job)"
    by (simp_all add: job_reconciler_def example_reconciler_def)
  have b: "requeueJobWatch (job_reconciler busy_job) = 20"
    by (simp add: job_reconciler_def example_reconciler_def)
  have w1: "\<exists>t' tr'.
      handleRunJobWatch undeletable_reconciler cleanup_run [] =
        (\<lparr>Requeue = False, RequeueAfter = 0\<rparr>, None, t', tr') \<and>
      RunStatus (Status t') = ''Completed'' \<and>
      CompletionTime (Status t') = ''Thu Jan  1 00:00:00 UTC 1970'' \<and>
      status_writes tr' = [t'] \<and>
      deletes tr' =
        [(KindJob, \<lparr>nn_Namespace = ''default'', nn_Name = ''app-abc123''\<rparr>,
          DeletePropagationForeground)] \<and>
      events tr' = [(''Normal'', ''Completed'', ''Run(abc123) completed'')]"
    using handleRunJobWatch_succeeded[of undeletable_reconciler "[]" cleanup_run succeeded_job]
      j(1) c
    by (auto simp add: f n e proj_simps Let_def)
  have w2: "\<exists>t' tr'.
      handleRunJobWatch vanished_reconciler cleanup_run [] =
        (\<lparr>Requeue = False, RequeueAfter = 0\<rparr>, None, t', tr') \<and>
      RunStatus (Status t') = ''Completed'' \<and>
      CompletionTime (Status t') = ''Thu Jan  1 00:00:00 UTC 1970'' \<and>
      status_writes tr' = [t'] \<and> deletes tr' = [] \<and>
      events tr' = [(''Normal'', ''Completed'', ''Run(abc123) completed'')]"
    using handleRunJobWatch_succeeded[of vanished_reconciler "[]" cleanup_run succeeded_job]
      j(2) c
    by (auto simp add: f n v proj_simps Let_def)
  have w3: "\<exists>t' tr'.
      handleRunJobWatch (job_reconciler succeeded_job) cleanup_run [] =
        (\<lparr>Requeue = False, RequeueAfter = 0\<rparr>, None, t', tr') \<and>
      RunStatus (Status t') = ''Completed'' \<and>
      status_writes tr' = [t'] \<and>
      deletes tr' =
        [(KindJob, \<lparr>nn_Namespace = ''default'', nn_Name = ''app-abc123''\<rparr>,
          DeletePropagationForeground)] \<and>
      events tr' = [(''Normal'', ''Cleanup'', ''Run(abc123) kubernetes job was deleted''),
                    (''Normal'', ''Completed'', ''Run(abc123) completed'')]"
    using handleRunJobWatch_succeeded[of "job_reconciler succeeded_job" "[]" cleanup_run
        succeeded_job] j(3) c
    by (auto simp add: f n s proj_simps Let_def)
  have w4: "\<exists>t' tr'.
      handleRunJobWatch (job_reconciler busy_job) running_run [] =
        (\<lparr>Requeue = False, RequeueAfter = 20\<rparr>, None, t', tr') \<and>
      RunStatus (Status t') = ''Running'' \<and> CompletionTime (Status t') = [] \<and>
      status_writes tr' = [] \<and> deletes tr' = [] \<and> events tr' = []"
    using handleRunJobWatch_succeeded[of "job_reconciler busy_job" "[]" running_run busy_job]
      j(4) c
    by (auto simp add: f n b proj_simps Let_def)
  from j c w1 w2 w3 w4 show ?thesis
    by blast
qed

section \<open>The status writer\<close>

text \<open>
  What \<^verbatim>\<open>truncateResourceName\<close> returns, without its helpers: a name shorter than the bound
  is kept; a name that reaches it is cut to the bound, then loses the hyphens at its end
  and, after them, the dots at its end.
\<close>

lemma truncateResourceName_eq:
  "truncateResourceName name mx =
     (if length name < mx then name
      else rev (dropWhile (\<lambda>c. c = CHR ''.'') (dropWhile (\<lambda>c. c = CHR ''-'')
             (rev (take mx name)))))"
  by (simp add: truncateResourceName_def TrimRight_def)

lemma truncateResourceName_prefix: "prefix (truncateResourceName name mx) name"
proof -
  have a: "prefix (rev (dropWhile P (rev xs))) xs" for P and xs :: string
  proof -
    have "xs = rev (rev xs)" by simp
    also have "\<dots> = rev (takeWhile P (rev xs) @ dropWhile P (rev xs))" by simp
    also have "\<dots> = rev (dropWhile P (rev xs)) @ rev (takeWhile P (rev xs))"
      by (simp only: rev_append)
    finally have "xs = rev (dropWhile P (rev xs)) @ rev (takeWhile P (rev xs))" .
    then show ?thesis by (metis prefixI)
  qed
  have "prefix (TrimRight (TrimRight (take mx name) (CHR ''-'')) (CHR ''.'')) (take mx name)"
    unfolding TrimRight_def by (rule prefix_order.trans[OF a a])
  moreover have "prefix (take mx name) name" by (rule take_is_prefix)
  ultimately show ?thesis
    by (auto simp: truncateResourceName_def intro: prefix_order.trans)
qed

lemma truncateResourceName_length:
  "0 < mx \<Longrightarrow> length (truncateResourceName name mx) \<le> mx"
proof -
  assume "0 < mx"
  have a: "length (rev (dropWhile P (rev xs))) \<le> length xs" for P and xs :: string
    using length_dropWhile_le[of P "rev xs"] by simp
  have "length (TrimRight (TrimRight (take mx name) (CHR ''-'')) (CHR ''.'')) \<le>
      length (take mx name)"
    unfolding TrimRight_def by (rule order_trans[OF a a])
  then show ?thesis
    by (auto simp: truncateResourceName_def)
qed

text \<open>
  Claim C5 says that the output secret name stamped with the status Started is the run's
  name truncated to 220 characters, followed by \<^verbatim>\<open>-outputs\<close>. For the run whose name is 219
  times \<^verbatim>\<open>a\<close> and then \<^verbatim>\<open>-b\<close>, the first 220 characters end with the hyphen; the name stamped
  is 219 times \<^verbatim>\<open>a\<close> followed by \<^verbatim>\<open>-outputs\<close>, without that hyphen.
\<close>

theorem updateRunStatus_trims_counterexample:
  "length (Name long_run) = 221 \<and>
   take 220 (Name long_run) = replicate 219 (CHR ''a'') @ ''-'' \<and>
   OutputSecretName (Status (fst (snd (updateRunStatus example_reconciler long_run ''Started'' []))))
     = replicate 219 (CHR ''a'') @ ''-outputs'' \<and>
   OutputSecretName (Status (fst (snd (updateRunStatus example_reconciler long_run ''Started'' []))))
     \<noteq> take 220 (Name long_run) @ ''-outputs''"
proof -
  have n: "Name long_run = replicate 219 (CHR ''a'') @ ''-b''"
    by (simp add: long_run_def long_name_def)
  have l: "length (Name long_run) = 221"
    by (simp add: n)
  have t: "take 220 (Name long_run) = replicate 219 (CHR ''a'') @ ''-''"
    by (simp add: n)
  have d: "dropWhile (\<lambda>c. c = CHR ''.'') (replicate 219 (CHR ''a'')) = replicate 219 (CHR ''a'')"
    by (rule dropWhile_eq_self_iff[THEN iffD2]) simp
  have tr: "truncateResourceName (Name long_run) 220 = replicate 219 (CHR ''a'')"
    by (simp add: truncateResourceName_eq l t d)
  have o: "OutputSecretName (Status (fst (snd
      (updateRunStatus example_reconciler long_run ''Started'' [])))) =
      replicate 219 (CHR ''a'') @ ''-outputs''"
    by (simp add: updateRunStatus_eq stamp_status_def Let_def GetOutputSecretName_def
        getOutputSecretName_def tr run_status_defs)
  from l t o show ?thesis
    by simp
qed

text \<open>
  Claim C5 as amended. For every call of \<^verbatim>\<open>updateRunStatus\<close> with target status \<open>S\<close>: the
  run's status becomes \<open>S\<close> and its observed generation the run's generation; the object so
  stamped is what is written to the cluster, and the result is the error of that write.
  When \<open>S\<close> is Started, the start time is the current time in the \<^verbatim>\<open>UnixDate\<close> layout, and the
  output secret name is the run's name followed by \<^verbatim>\<open>-outputs\<close>, where a name of 220
  characters or more is first cut to its first 220 characters and then loses the hyphens at
  its end and, after them, the dots at its end. When \<open>S\<close> is Completed or Failed, the
  completion time is the current time in the same layout. In every other case the three
  fields keep their values.
\<close>

theorem updateRunStatus_stamps:
  "(let (err, t', tr') = updateRunStatus r t S tr in
     RunStatus (Status t') = S \<and>
     ObservedGeneration (Status t') = Generation t \<and> Generation t' = Generation t \<and>
     err = Status_Update r t' \<and> tr' \<noteq> [] \<and> last tr' = ClientStatusUpdate t' \<and>
     StartedTime (Status t') =
       (if S = ''Started'' then time_Format r (time_Now r) UnixDate else StartedTime (Status t)) \<and>
     OutputSecretName (Status t') =
       (if S = ''Started''
        then (if length (Name t) < 220 then Name t
              else rev (dropWhile (\<lambda>c. c = CHR ''.'') (dropWhile (\<lambda>c. c = CHR ''-'')
                     (rev (take 220 (Name t)))))) @ ''-outputs''
        else OutputSecretName (Status t)) \<and>
     CompletionTime (Status t') =
       (if S = ''Completed'' \<or> S = ''Failed'' then time_Format r (time_Now r) UnixDate
        else CompletionTime (Status t)))"
  by (simp add: updateRunStatus_def stamp_status_def Let_def GetOutputSecretName_def
      getOutputSecretName_def truncateResourceName_eq run_status_defs)

text \<open>
  Starting the run \<^verbatim>\<open>bar\<close> on the example cluster, and the run with the long name, whose 220
  first characters end with a hyphen; failing the run \<^verbatim>\<open>bar\<close>.
\<close>

theorem updateRunStatus_stamps_witness:
  "(let (err, t', tr') = updateRunStatus example_reconciler bar_run ''Started'' [] in
     RunStatus (Status t') = ''Started'' \<and> ObservedGeneration (Status t') = 1 \<and>
     err = None \<and> tr' = [ClientStatusUpdate t'] \<and>
     StartedTime (Status t') = ''Thu Jan  1 00:00:00 UTC 1970'' \<and>
     OutputSecretName (Status t') = ''bar-outputs'' \<and>
     CompletionTime (Status t') = []) \<and>
   (let (err, t', tr') = updateRunStatus example_reconciler long_run ''Started'' [] in
     OutputSecretName (Status t') = replicate 219 (CHR ''a'') @ ''-outputs'' \<and>
     length (OutputSecretName (Status t')) = 227) \<and>
   (let (err, t', tr') = updateRunStatus example_reconciler bar_run ''Failed'' [] in
     RunStatus (Status t') = ''Failed'' \<and> StartedTime (Status t') = [] \<and>
     OutputSecretName (Status t') = [] \<and>
     CompletionTime (Status t') = ''Thu Jan  1 00:00:00 UTC 1970'')"
proof -
  have v: "Generation bar_run = 1" "Name bar_run = ''bar''"
    "CompletionTime (Status bar_run) = []" "StartedTime (Status bar_run) = []"
    "OutputSecretName (Status bar_run) = []"
    "Status_Update example_reconciler = (\<lambda>t. None)"
    "time_Format example_reconciler = (\<lambda>tm l. ''Thu Jan  1 00:00:00 UTC 1970'')"
    by (simp_all add: bar_run_def empty_status_def example_reconciler_def)
  have tr: "snd (snd (updateRunStatus example_reconciler bar_run ''Started'' [])) =
     [ClientStatusUpdate (fst (snd (updateRunStatus example_reconciler bar_run ''Started'' [])))]"
    by (simp add: updateRunStatus_eq run_status_defs)
  have n: "Name long_run = replicate 219 (CHR ''a'') @ ''-b''"
    by (simp add: long_run_def long_name_def)
  have d: "dropWhile (\<lambda>c. c = CHR ''.'') (replicate 219 (CHR ''a'')) = replicate 219 (CHR ''a'')"
    by (rule dropWhile_eq_self_iff[THEN iffD2]) simp
  have a: "(let (err, t', tr') = updateRunStatus example_reconciler bar_run ''Started'' [] in
     RunStatus (Status t') = ''Started'' \<and> ObservedGeneration (Status t') = 1 \<and>
     err = None \<and> tr' = [ClientStatusUpdate t'] \<and>
     StartedTime (Status t') = ''Thu Jan  1 00:00:00 UTC 1970'' \<and>
     OutputSecretName (Status t') = ''bar-outputs'' \<and>
     CompletionTime (Status t') = [])"
    using updateRunStatus_stamps[of example_reconciler bar_run "''Started''" "[]"] tr
    by (simp add: v split: prod.splits)
  have b: "(let (err, t', tr') = updateRunStatus example_reconciler long_run ''Started'' [] in
     OutputSecretName (Status t') = replicate 219 (CHR ''a'') @ ''-outputs'' \<and>
     length (OutputSecretName (Status t')) = 227)"
    using updateRunStatus_stamps[of example_reconciler long_run "''Started''" "[]"]
    by (simp add: n d split: prod.splits)
  have c: "(let (err, t', tr') = updateRunStatus example_reconciler bar_run ''Failed'' [] in
     RunStatus (Status t') = ''Failed'' \<and> StartedTime (Status t') = [] \<and>
     OutputSecretName (Status t') = [] \<and>
     CompletionTime (Status t') = ''Thu Jan  1 00:00:00 UTC 1970'')"
    using updateRunStatus_stamps[of example_reconciler bar_run "''Failed''" "[]"]
    by (simp add: v split: prod.splits)
  from a b c show ?thesis
    by blast
qed

section \<open>The observed generation never exceeds the generation\<close>

text \<open>
  Claim C6. In every reconciliation, whether it returns or panics: every status written
  carries the generation of the run as loaded, both as its generation and as its observed
  generation; every object written by \<^verbatim>\<open>Update\<close> carries the loaded status and generation;
  nothing is written when the run cannot be loaded. So if the loaded run has
  \<open>observedGeneration \<le> generation\<close>, every object the reconciliation writes has it too.
\<close>

theorem Reconcile_observedGeneration:
  "(case Get_Terraform r req of
      Inl e \<Rightarrow>
        status_writes (effects_of (Reconcile r req)) = [] \<and>
        metadata_writes (effects_of (Reconcile r req)) = []
    | Inr t \<Rightarrow>
        list_all (\<lambda>t'. ObservedGeneration (Status t') = Generation t \<and> Generation t' = Generation t)
          (status_writes (effects_of (Reconcile r req))) \<and>
        list_all (\<lambda>t'. Status t' = Status t \<and> Generation t' = Generation t)
          (metadata_writes (effects_of (Reconcile r req))) \<and>
        (ObservedGeneration (Status t) \<le> Generation t \<longrightarrow>
           list_all (\<lambda>t'. ObservedGeneration (Status t') \<le> Generation t')
             (status_writes (effects_of (Reconcile r req)) @
              metadata_writes (effects_of (Reconcile r req)))))"
proof (cases "Get_Terraform r req")
  case (Inl e)
  then show ?thesis
    by (simp add: Reconcile_def Let_def effects_of_def proj_simps)
next
  case (Inr t)
  from Reconcile_writes[OF Inr] Inr show ?thesis
    by (auto simp: list_all_iff)
qed

text \<open>
  On the example cluster, reconciling the edited run \<^verbatim>\<open>dns\<close> starts a new run and writes one
  status, with observed generation 2.
\<close>

lemma Reconcile_dns_status_writes:
  "map (\<lambda>t'. (RunStatus (Status t'), ObservedGeneration (Status t'), Generation t'))
     (status_writes (effects_of (Reconcile example_reconciler dns_request))) =
   [(RunStarted, 2, 2)]"
  by (simp add: Reconcile_def reconcile_update_def handleRunUpdate_def handleRunCreate_def
      CheckDependencies_def SetVariablesFromDependencies_def CreateTerraformRun_def
      CreateTerraformRun_resources_def createRbacConfigIfNotExist_def
      createRoleBindingIfNotExist_def isServiceAccountExist_def isRoleBindingExist_def
      createServiceAccount_def createRoleBinding_def createConfigMapForModule_def
      GetConfigMapSpecForModule_def GetTerraformModuleFromTemplate_def template_Parse_def
      template_Execute_def
      createSecretForOutputs_def createJobForRun_def CleanupResources_def cleanup_configmap_def
      deleteJobByRun_def deleteConfigMapByRun_def GetJobForRun_def updateRunStatus_eq
      stamp_status_fields SetRunID_def
      dns_request_def example_reconciler_def example_get_def edited_run_def completed_run_def
      example_spec_def empty_status_def ContainsFinalizer_def IsSubmitted_def IsWaiting_def
      IsStarted_def IsUpdated_def effects_of_def proj_simps Let_def run_status_defs)

theorem Reconcile_observedGeneration_witness:
  "Get_Terraform example_reconciler dns_request = Inr (edited_run ''dns'') \<and>
   ObservedGeneration (Status (edited_run ''dns'')) \<le> Generation (edited_run ''dns'') \<and>
   map (\<lambda>t'. (ObservedGeneration (Status t'), Generation t'))
     (status_writes (effects_of (Reconcile example_reconciler dns_request))) = [(2, 2)] \<and>
   list_all (\<lambda>t'. ObservedGeneration (Status t') \<le> Generation t')
     (status_writes (effects_of (Reconcile example_reconciler dns_request)) @
      metadata_writes (effects_of (Reconcile example_reconciler dns_request)))"
proof -
  have g: "Get_Terraform example_reconciler dns_request = Inr (edited_run ''dns'')"
    by (simp add: example_reconciler_def example_get_def dns_request_def)
  have le: "ObservedGeneration (Status (edited_run ''dns'')) \<le> Generation (edited_run ''dns'')"
    by (simp add: edited_run_def completed_run_def empty_status_def)
  have w: "map (\<lambda>t'. (ObservedGeneration (Status t'), Generation t'))
     (status_writes (effects_of (Reconcile example_reconciler dns_request))) = [(2, 2)]"
    using Reconcile_dns_status_writes by (auto simp: map_eq_Cons_conv)
  from Reconcile_observedGeneration[of example_reconciler dns_request] g le w show ?thesis
    by simp
qed

section \<open>Rendering a minimal spec\<close>

text \<open>
  Claim C7. For a run whose spec has terraform version \<open>X\<close>, module source \<open>S\<close>, module
  version \<open>V\<close> (given, that is not empty) and exactly one variable, of key \<open>K\<close> and not an
  environment variable, the renderer returns a text in which
  \<^verbatim>\<open>required_version = "~> X"\<close>, \<^verbatim>\<open>variable "K" {}\<close>, \<^verbatim>\<open>source = "S"\<close>, \<^verbatim>\<open>version = "V"\<close> and
  \<^verbatim>\<open>K = var.K\<close> occur in this order. The renderer is a function of the run alone (it takes no
  client and has no effects), and an error it returns is the error of parsing or of
  executing the template.
\<close>

theorem render_minimal_spec:
  assumes \<open>TerraformVersion (Spec t) = X\<close> and \<open>Module (Spec t) = \<lparr>Source = S, Version = V\<rparr>\<close>
    and \<open>V \<noteq> []\<close> and \<open>Variables (Spec t) = [v]\<close> and \<open>Key v = K\<close>
    and \<open>\<not> EnvironmentVariable v\<close>
  shows \<open>(\<exists>A B C D E F.
     GetTerraformModuleFromTemplate t =
       Inr (A @ ''required_version = "~> '' @ X @ ''"'' @ B @
            ''variable "'' @ K @ ''" {}'' @ C @
            ''source = "'' @ S @ ''"'' @ D @
            ''version = "'' @ V @ ''"'' @ E @
            K @ '' = var.'' @ K @ F)) \<and>
     (\<forall>e. GetTerraformModuleFromTemplate t = Inl e \<longrightarrow>
          template_Parse = Inl e \<or> template_Execute t = Inl e)\<close>
proof -
  let ?sp = "Spec t"
  have eq: \<open>render_main_tf ?sp =
      (''terraform {'' @ render_backend ?sp @ NL @ TAB @ NL @ TAB @ TAB) @
      ''required_version = "~> '' @ X @ ''"'' @
      (NL @ TAB @ ''}'' @ render_providers ?sp @ NL @ TAB) @
      ''variable "'' @ K @ ''" {}'' @
      (NL @ TAB @ NL @ TAB @ ''## additional-blocks'' @ NL @ TAB @ NL @ TAB @
       ''module "operator" {'' @ NL @ TAB @ TAB) @
      ''source = "'' @ S @ ''"'' @
      (NL @ TAB @ TAB) @
      ''version = "'' @ V @ ''"'' @
      (NL @ TAB @ TAB) @
      K @ '' = var.'' @ K @
      (NL @ TAB @ ''}'' @ concat (map render_output (Outputs ?sp)))\<close>
    using assms
    by (simp add: render_main_tf_def render_required_version_def render_variable_decl_def
        render_module_head_def render_module_version_def render_variable_arg_def)
  have \<open>\<exists>A B C D E F.
     GetTerraformModuleFromTemplate t =
       Inr (A @ ''required_version = "~> '' @ X @ ''"'' @ B @
            ''variable "'' @ K @ ''" {}'' @ C @
            ''source = "'' @ S @ ''"'' @ D @
            ''version = "'' @ V @ ''"'' @ E @
            K @ '' = var.'' @ K @ F)\<close>
    unfolding GetTerraformModuleFromTemplate_total eq by blast
  moreover have \<open>\<forall>e. GetTerraformModuleFromTemplate t = Inl e \<longrightarrow>
          template_Parse = Inl e \<or> template_Execute t = Inl e\<close>
    by (simp add: GetTerraformModuleFromTemplate_def split: sum.splits)
  ultimately show ?thesis by blast
qed

theorem render_minimal_spec_witness:
  \<open>\<exists>A B C D E F.
     GetTerraformModuleFromTemplate bar_run =
       Inr (A @ ''required_version = "~> 1.0.2"'' @ B @
            ''variable "length" {}'' @ C @
            ''source = "IbraheemAlSaady/test/module"'' @ D @
            ''version = "0.0.1"'' @ E @
            ''length = var.length'' @ F)\<close>
proof -
  have h: \<open>TerraformVersion (Spec bar_run) = ''1.0.2''\<close>
    \<open>Module (Spec bar_run) = \<lparr>Source = ''IbraheemAlSaady/test/module'', Version = ''0.0.1''\<rparr>\<close>
    \<open>''0.0.1'' \<noteq> []\<close>
    \<open>Variables (Spec bar_run) = [plain_var ''length'' ''16'']\<close>
    \<open>Key (plain_var ''length'' ''16'') = ''length''\<close>
    \<open>\<not> EnvironmentVariable (plain_var ''length'' ''16'')\<close>
    by (simp_all add: bar_run_def example_spec_def plain_var_def)
  from render_minimal_spec[OF h] show ?thesis
    by simp
qed

section \<open>The default backend is never applied\<close>

text \<open>
  Claim C8 says that the \<^verbatim>\<open>main.tf\<close> of the module ConfigMap of a run without a backend
  holds the default \<^verbatim>\<open>backend "kubernetes"\<close> stanza. \<^verbatim>\<open>setBackendCfgIfNotExist\<close> would write
  that stanza into the spec, but neither copy of \<^verbatim>\<open>CreateTerraformRun\<close> calls it: for the
  run \<^verbatim>\<open>bar\<close>, which has no backend, the ConfigMap created holds the file of the renderer's
  test, and the word \<^verbatim>\<open>backend\<close> does not occur in it.
\<close>

theorem CreateTerraformRun_no_default_backend:
  "Backend (Spec bar_run) = [] \<and> Backend (Spec bar_1234) = [] \<and>
   creates (snd (CreateTerraformRun_resources example_reconciler bar_1234 [])) =
     [ServiceAccount \<lparr>nn_Namespace = ''default'', nn_Name = ''terraform-runner''\<rparr>,
      RoleBinding \<lparr>nn_Namespace = ''default'', nn_Name = ''terraform-runner''\<rparr> ''terraform-runner'',
      ConfigMap \<lparr>nn_Namespace = ''default'', nn_Name = ''bar-1234''\<rparr> expectedFile,
      Secret \<lparr>nn_Namespace = ''default'', nn_Name = ''bar-outputs''\<rparr>,
      JobObject \<lparr>nn_Namespace = ''default'', nn_Name = ''bar-1234''\<rparr>] \<and>
   creates (snd (snd (CreateTerraformRun example_reconciler bar_run []))) =
     [ServiceAccount \<lparr>nn_Namespace = ''default'', nn_Name = ''terraform-runner''\<rparr>,
      RoleBinding \<lparr>nn_Namespace = ''default'', nn_Name = ''terraform-runner''\<rparr> ''terraform-runner'',
      ConfigMap \<lparr>nn_Namespace = ''default'', nn_Name = ''bar-abcdef''\<rparr> expectedFile,
      Secret \<lparr>nn_Namespace = ''default'', nn_Name = ''bar-outputs''\<rparr>,
      JobObject \<lparr>nn_Namespace = ''default'', nn_Name = ''bar-abcdef''\<rparr>] \<and>
   \<not> sublist ''backend'' expectedFile"
proof -
  have older: "creates (snd (CreateTerraformRun_resources example_reconciler bar_1234 [])) =
     [ServiceAccount \<lparr>nn_Namespace = ''default'', nn_Name = ''terraform-runner''\<rparr>,
      RoleBinding \<lparr>nn_Namespace = ''default'', nn_Name = ''terraform-runner''\<rparr> ''terraform-runner'',
      ConfigMap \<lparr>nn_Namespace = ''default'', nn_Name = ''bar-1234''\<rparr> expectedFile,
      Secret \<lparr>nn_Namespace = ''default'', nn_Name = ''bar-outputs''\<rparr>,
      JobObject \<lparr>nn_Namespace = ''default'', nn_Name = ''bar-1234''\<rparr>]"
    by (simp add: CreateTerraformRun_resources_def createRbacConfigIfNotExist_def
        createRoleBindingIfNotExist_def isServiceAccountExist_def isRoleBindingExist_def
        createServiceAccount_def createRoleBinding_def createConfigMapForModule_main_tf
        createSecretForOutputs_def createJobForRun_def
        GetServiceAccountName_def GetServiceAccount_def GetRoleBindingName_def
        GetRoleBinding_def GetOutputSecretName_def GetOutputSecret_def getOutputSecretName_def
        GetJobSpecForRun_def unique_name_def getUniqueResourceName_def
        truncateResourceName_def runnerRBACName_def example_reconciler_def bar_1234_def
        bar_run_def empty_status_def render_example proj_simps Let_def)
  have current: "creates (snd (snd (CreateTerraformRun example_reconciler bar_run []))) =
     [ServiceAccount \<lparr>nn_Namespace = ''default'', nn_Name = ''terraform-runner''\<rparr>,
      RoleBinding \<lparr>nn_Namespace = ''default'', nn_Name = ''terraform-runner''\<rparr> ''terraform-runner'',
      ConfigMap \<lparr>nn_Namespace = ''default'', nn_Name = ''bar-abcdef''\<rparr> expectedFile,
      Secret \<lparr>nn_Namespace = ''default'', nn_Name = ''bar-outputs''\<rparr>,
      JobObject \<lparr>nn_Namespace = ''default'', nn_Name = ''bar-abcdef''\<rparr>]"
    by (simp add: CreateTerraformRun_def CreateTerraformRun_resources_def
        createRbacConfigIfNotExist_def createRoleBindingIfNotExist_def
        isServiceAccountExist_def isRoleBindingExist_def createServiceAccount_def
        createRoleBinding_def createConfigMapForModule_main_tf createSecretForOutputs_def
        createJobForRun_def SetRunID_def random_identity_reader
        GetServiceAccountName_def GetServiceAccount_def GetRoleBindingName_def
        GetRoleBinding_def GetOutputSecretName_def GetOutputSecret_def getOutputSecretName_def
        GetJobSpecForRun_def unique_name_def getUniqueResourceName_def
        truncateResourceName_def runnerRBACName_def example_reconciler_def bar_run_def
        empty_status_def render_example proj_simps Let_def)
  have unset: "Backend (Spec bar_run) = []" "Backend (Spec bar_1234) = []"
    by (simp_all add: bar_1234_def bar_run_def example_spec_def)
  from older current unset no_backend_in_expectedFile show ?thesis
    by simp
qed

section \<open>A failed create of the service account or role binding is an error\<close>

text \<open>
  Claim C9 says that a create that fails with \<^verbatim>\<open>AlreadyExists\<close> counts as success. In the
  cluster \<open>race_reconciler\<close> the existence check of the service account reports
  \<^verbatim>\<open>NotFound\<close> and its create \<^verbatim>\<open>AlreadyExists\<close>: \<^verbatim>\<open>createRbacConfigIfNotExist\<close> returns that
  error, and so does \<^verbatim>\<open>CreateTerraformRun\<close>, having created nothing else.
\<close>

theorem createRbacConfigIfNotExist_AlreadyExists_counterexample:
  "Get_Object race_reconciler KindServiceAccount (GetServiceAccountName bar_run) = Some NotFound \<and>
   Create race_reconciler (GetServiceAccount bar_run) = Some AlreadyExists \<and>
   fst (createRbacConfigIfNotExist race_reconciler bar_run []) = Some AlreadyExists \<and>
   fst (CreateTerraformRun race_reconciler bar_run []) = Some AlreadyExists \<and>
   creates (snd (snd (CreateTerraformRun race_reconciler bar_run []))) =
     [ServiceAccount \<lparr>nn_Namespace = ''default'', nn_Name = ''terraform-runner''\<rparr>]"
  by (simp add: CreateTerraformRun_def CreateTerraformRun_resources_def
      createRbacConfigIfNotExist_SetRunID createRbacConfigIfNotExist_def
      isServiceAccountExist_def createServiceAccount_def race_reconciler_def
      example_reconciler_def GetServiceAccountName_def GetServiceAccount_def bar_run_def
      runnerRBACName_def proj_simps Let_def SetRunID_run)

text \<open>
  The two halves of \<^verbatim>\<open>createRbacConfigIfNotExist\<close>, each written out over the answers of the
  cluster: the error of the existence check unless it is \<^verbatim>\<open>NotFound\<close>, and then the result
  of the create.
\<close>

lemma createRoleBindingIfNotExist_eq:
  "createRoleBindingIfNotExist r t tr =
     (let n = \<lparr>nn_Namespace = Namespace t, nn_Name = ''terraform-runner''\<rparr>;
          rb = RoleBinding n ''terraform-runner''
      in case Get_Object r KindRoleBinding n of
           None \<Rightarrow> (None, tr @ [ClientGet KindRoleBinding n])
         | Some e \<Rightarrow>
             if IsNotFound e
             then (Create r rb, tr @ [ClientGet KindRoleBinding n, ClientCreate rb])
             else (Some e, tr @ [ClientGet KindRoleBinding n]))"
  by (simp add: createRoleBindingIfNotExist_def isRoleBindingExist_def createRoleBinding_def
      GetRoleBindingName_def GetRoleBinding_def runnerRBACName_def Let_def
      split: option.splits)

lemma createRbacConfigIfNotExist_eq:
  "createRbacConfigIfNotExist r t tr =
     (let n = \<lparr>nn_Namespace = Namespace t, nn_Name = ''terraform-runner''\<rparr>;
          sa = ServiceAccount n
      in case Get_Object r KindServiceAccount n of
           None \<Rightarrow> createRoleBindingIfNotExist r t (tr @ [ClientGet KindServiceAccount n])
         | Some e \<Rightarrow>
             if IsNotFound e
             then (case Create r sa of
                     None \<Rightarrow>
                       createRoleBindingIfNotExist r t
                         (tr @ [ClientGet KindServiceAccount n, ClientCreate sa])
                   | Some e' \<Rightarrow>
                       (Some e', tr @ [ClientGet KindServiceAccount n, ClientCreate sa]))
             else (Some e, tr @ [ClientGet KindServiceAccount n]))"
  by (simp add: createRbacConfigIfNotExist_def isServiceAccountExist_def
      createServiceAccount_def GetServiceAccountName_def GetServiceAccount_def
      runnerRBACName_def Let_def split: option.splits)

text \<open>
  Claim C9 as amended. The service account and the role binding are both named
  \<^verbatim>\<open>terraform-runner\<close>, in the run's namespace. \<^verbatim>\<open>createRbacConfigIfNotExist\<close> checks the service
  account, and creates it only when the check reports \<^verbatim>\<open>NotFound\<close>; if the check fails
  otherwise, or the create fails, with \<^verbatim>\<open>AlreadyExists\<close> or any other error, that error is
  returned and the role binding is not looked at. Then it does the same for the role
  binding. So it returns no error exactly when each object is found by its check, or is
  reported \<^verbatim>\<open>NotFound\<close> and then created without error. \<^verbatim>\<open>CreateTerraformRun\<close> returns any error
  of \<^verbatim>\<open>createRbacConfigIfNotExist\<close> without going on to the ConfigMap, the Secret and the
  Job.
\<close>

theorem createRbacConfigIfNotExist_returns_create_error:
  "(let n = \<lparr>nn_Namespace = Namespace t, nn_Name = ''terraform-runner''\<rparr>;
        sa = ServiceAccount n;
        rb = RoleBinding n ''terraform-runner'';
        sa_missing = (case Get_Object r KindServiceAccount n of
                        None \<Rightarrow> False | Some e \<Rightarrow> IsNotFound e);
        rb_missing = (case Get_Object r KindRoleBinding n of
                        None \<Rightarrow> False | Some e \<Rightarrow> IsNotFound e);
        sa_error = (if sa_missing then Create r sa else Get_Object r KindServiceAccount n);
        rb_error = (if rb_missing then Create r rb else Get_Object r KindRoleBinding n)
    in createRbacConfigIfNotExist r t tr =
         (if sa_error \<noteq> None then sa_error else rb_error,
          tr @ [ClientGet KindServiceAccount n] @ (if sa_missing then [ClientCreate sa] else []) @
            (if sa_error \<noteq> None then []
             else [ClientGet KindRoleBinding n] @ (if rb_missing then [ClientCreate rb] else []))) \<and>
       ((fst (createRbacConfigIfNotExist r t tr) = None) =
          (object_ensured r KindServiceAccount n sa \<and> object_ensured r KindRoleBinding n rb)) \<and>
       (\<forall>e. fst (createRbacConfigIfNotExist r t tr) = Some e \<longrightarrow>
          CreateTerraformRun r t tr =
            (Some e, SetRunID (rand_Reader r) t, snd (createRbacConfigIfNotExist r t tr))))"
proof -
  let ?n = "\<lparr>nn_Namespace = Namespace t, nn_Name = ''terraform-runner''\<rparr>"
  have a: "createRbacConfigIfNotExist r t tr =
      (let sa = ServiceAccount ?n;
           rb = RoleBinding ?n ''terraform-runner'';
           sa_missing = (case Get_Object r KindServiceAccount ?n of
                           None \<Rightarrow> False | Some e \<Rightarrow> IsNotFound e);
           rb_missing = (case Get_Object r KindRoleBinding ?n of
                           None \<Rightarrow> False | Some e \<Rightarrow> IsNotFound e);
           sa_error = (if sa_missing then Create r sa else Get_Object r KindServiceAccount ?n);
           rb_error = (if rb_missing then Create r rb else Get_Object r KindRoleBinding ?n)
       in (if sa_error \<noteq> None then sa_error else rb_error,
           tr @ [ClientGet KindServiceAccount ?n] @
             (if sa_missing then [ClientCreate sa] else []) @
             (if sa_error \<noteq> None then []
              else [ClientGet KindRoleBinding ?n] @
                   (if rb_missing then [ClientCreate rb] else []))))"
    by (auto simp: createRbacConfigIfNotExist_eq createRoleBindingIfNotExist_eq Let_def
        split: option.splits)
  have b: "(fst (createRbacConfigIfNotExist r t tr) = None) =
      (object_ensured r KindServiceAccount ?n (ServiceAccount ?n) \<and>
       object_ensured r KindRoleBinding ?n (RoleBinding ?n ''terraform-runner''))"
    by (auto simp: createRbacConfigIfNotExist_eq createRoleBindingIfNotExist_eq
        object_ensured_def Let_def split: option.splits)
  have c: "\<forall>e. fst (createRbacConfigIfNotExist r t tr) = Some e \<longrightarrow>
      CreateTerraformRun r t tr =
        (Some e, SetRunID (rand_Reader r) t, snd (createRbacConfigIfNotExist r t tr))"
    by (auto simp: CreateTerraformRun_def CreateTerraformRun_resources_def
        createRbacConfigIfNotExist_SetRunID Let_def split: prod.splits)
  from a b c show ?thesis
    by (simp add: Let_def)
qed

text \<open>
  Three clusters, for the run \<^verbatim>\<open>bar\<close> in \<^verbatim>\<open>default\<close>. Where the service account is created by
  someone else between the check and the create, the error \<^verbatim>\<open>AlreadyExists\<close> is returned
  after these two calls, by \<^verbatim>\<open>CreateTerraformRun\<close> as well. Where the service account exists
  and role bindings may not be created, the service account is not created again and the
  error of the role binding's create is returned as it is. Where both objects are missing
  and may be created, both are created and no error is returned.
\<close>

theorem createRbacConfigIfNotExist_returns_create_error_witness:
  "IsNotFound NotFound \<and> \<not> IsNotFound AlreadyExists \<and> \<not> IsNotFound (ApiError ''forbidden'') \<and>
   createRbacConfigIfNotExist race_reconciler bar_run [] =
     (Some AlreadyExists,
      [ClientGet KindServiceAccount \<lparr>nn_Namespace = ''default'', nn_Name = ''terraform-runner''\<rparr>,
       ClientCreate
         (ServiceAccount \<lparr>nn_Namespace = ''default'', nn_Name = ''terraform-runner''\<rparr>)]) \<and>
   CreateTerraformRun race_reconciler bar_run [] =
     (Some AlreadyExists, SetRunID (rand_Reader race_reconciler) bar_run,
      [ClientGet KindServiceAccount \<lparr>nn_Namespace = ''default'', nn_Name = ''terraform-runner''\<rparr>,
       ClientCreate
         (ServiceAccount \<lparr>nn_Namespace = ''default'', nn_Name = ''terraform-runner''\<rparr>)]) \<and>
   createRbacConfigIfNotExist forbidden_reconciler bar_run [] =
     (Some (ApiError ''forbidden''),
      [ClientGet KindServiceAccount \<lparr>nn_Namespace = ''default'', nn_Name = ''terraform-runner''\<rparr>,
       ClientGet KindRoleBinding \<lparr>nn_Namespace = ''default'', nn_Name = ''terraform-runner''\<rparr>,
       ClientCreate
         (RoleBinding \<lparr>nn_Namespace = ''default'', nn_Name = ''terraform-runner''\<rparr>
            ''terraform-runner'')]) \<and>
   createRbacConfigIfNotExist example_reconciler bar_run [] =
     (None,
      [ClientGet KindServiceAccount \<lparr>nn_Namespace = ''default'', nn_Name = ''terraform-runner''\<rparr>,
       ClientCreate
         (ServiceAccount \<lparr>nn_Namespace = ''default'', nn_Name = ''terraform-runner''\<rparr>),
       ClientGet KindRoleBinding \<lparr>nn_Namespace = ''default'', nn_Name = ''terraform-runner''\<rparr>,
       ClientCreate
         (RoleBinding \<lparr>nn_Namespace = ''default'', nn_Name = ''terraform-runner''\<rparr>
            ''terraform-runner'')])"
proof -
  have ns: "Namespace bar_run = ''default''"
    by (simp add: bar_run_def)
  have race: "Get_Object race_reconciler = (\<lambda>k n. Some NotFound)"
    "Create race_reconciler =
       (\<lambda>obj. case obj of ServiceAccount n \<Rightarrow> Some AlreadyExists | _ \<Rightarrow> None)"
    by (simp_all add: race_reconciler_def example_reconciler_def)
  have forbidden:
    "Get_Object forbidden_reconciler =
       (\<lambda>k n. if k = KindServiceAccount then None else Some NotFound)"
    "Create forbidden_reconciler =
       (\<lambda>obj. case obj of RoleBinding n role \<Rightarrow> Some (ApiError ''forbidden'') | _ \<Rightarrow> None)"
    by (simp_all add: forbidden_reconciler_def example_reconciler_def)
  have example: "Get_Object example_reconciler = (\<lambda>k n. Some NotFound)"
    "Create example_reconciler = (\<lambda>obj. None)"
    by (simp_all add: example_reconciler_def)
  have a: "createRbacConfigIfNotExist race_reconciler bar_run [] =
     (Some AlreadyExists,
      [ClientGet KindServiceAccount \<lparr>nn_Namespace = ''default'', nn_Name = ''terraform-runner''\<rparr>,
       ClientCreate
         (ServiceAccount \<lparr>nn_Namespace = ''default'', nn_Name = ''terraform-runner''\<rparr>)])"
    and a': "CreateTerraformRun race_reconciler bar_run [] =
     (Some AlreadyExists, SetRunID (rand_Reader race_reconciler) bar_run,
      [ClientGet KindServiceAccount \<lparr>nn_Namespace = ''default'', nn_Name = ''terraform-runner''\<rparr>,
       ClientCreate
         (ServiceAccount \<lparr>nn_Namespace = ''default'', nn_Name = ''terraform-runner''\<rparr>)])"
    using createRbacConfigIfNotExist_returns_create_error[where r = race_reconciler and t = bar_run and tr = "[]"]
    by (simp_all add: ns race Let_def)
  have b: "createRbacConfigIfNotExist forbidden_reconciler bar_run [] =
     (Some (ApiError ''forbidden''),
      [ClientGet KindServiceAccount \<lparr>nn_Namespace = ''default'', nn_Name = ''terraform-runner''\<rparr>,
       ClientGet KindRoleBinding \<lparr>nn_Namespace = ''default'', nn_Name = ''terraform-runner''\<rparr>,
       ClientCreate
         (RoleBinding \<lparr>nn_Namespace = ''default'', nn_Name = ''terraform-runner''\<rparr>
            ''terraform-runner'')])"
    using createRbacConfigIfNotExist_returns_create_error[where r = forbidden_reconciler and t = bar_run and tr = "[]"]
    by (simp add: ns forbidden Let_def)
  have c: "createRbacConfigIfNotExist example_reconciler bar_run [] =
     (None,
      [ClientGet KindServiceAccount \<lparr>nn_Namespace = ''default'', nn_Name = ''terraform-runner''\<rparr>,
       ClientCreate
         (ServiceAccount \<lparr>nn_Namespace = ''default'', nn_Name = ''terraform-runner''\<rparr>),
       ClientGet KindRoleBinding \<lparr>nn_Namespace = ''default'', nn_Name = ''terraform-runner''\<rparr>,
       ClientCreate
         (RoleBinding \<lparr>nn_Namespace = ''default'', nn_Name = ''terraform-runner''\<rparr>
            ''terraform-runner'')])"
    using createRbacConfigIfNotExist_returns_create_error[where r = example_reconciler and t = bar_run and tr = "[]"]
    by (simp add: ns example Let_def)
  from a a' b c show ?thesis
    by simp
qed

section \<open>Run identifiers are six letters of the alphabet\<close>

text \<open>
  Claim C10. Whatever the random reader yields, the run id that \<^verbatim>\<open>SetRunID\<close> stores has
  exactly six characters, each one of the 35 characters of
  \<^verbatim>\<open>abcdefghijklmnopqrstuvwxyz123456790\<close>; so it is made of lower-case letters and digits, and
  the digit 8 never occurs in it.
\<close>

theorem SetRunID_six_letters:
  "length (RunID (Status (SetRunID reader t))) = 6 \<and>
   set (RunID (Status (SetRunID reader t))) \<subseteq> set letters \<and>
   letters = ''abcdefghijklmnopqrstuvwxyz123456790'' \<and> length letters = 35 \<and>
   set (RunID (Status (SetRunID reader t))) \<subseteq> set ''abcdefghijklmnopqrstuvwxyz0123456789'' \<and>
   CHR ''8'' \<notin> set (RunID (Status (SetRunID reader t)))"
proof -
  have sub: "set (random reader 6) \<subseteq> set letters"
    by (rule random_in_letters)
  have alnum: "set (random reader 6) \<subseteq> set ''abcdefghijklmnopqrstuvwxyz0123456789''"
    using sub letters_lower_alnum by (rule subset_trans)
  have no8: "CHR ''8'' \<notin> set (random reader 6)"
    using sub letters_no_8 by blast
  show ?thesis
    unfolding RunID_SetRunID
    using sub alnum no8 random_length[of reader 6] length_letters letters_def by blast
qed

text \<open>With the reader that yields \<open>7 i + 3\<close> at draw \<open>i\<close>, the run id is \<^verbatim>\<open>dkry6d\<close>.\<close>

theorem SetRunID_six_letters_witness:
  "RunID (Status (SetRunID (\<lambda>i. i * 7 + 3) bar_run)) = ''dkry6d'' \<and>
   length (RunID (Status (SetRunID (\<lambda>i. i * 7 + 3) bar_run))) = 6 \<and>
   CHR ''8'' \<notin> set (RunID (Status (SetRunID (\<lambda>i. i * 7 + 3) bar_run)))"
proof -
  have "RunID (Status (SetRunID (\<lambda>i. i * 7 + 3) bar_run)) = ''dkry6d''"
    by (simp add: RunID_SetRunID random_def rand_Int_def letters_def upt_rec)
  with SetRunID_six_letters[of "\<lambda>i. i * 7 + 3" bar_run] show ?thesis
    by simp
qed

end
